theory Spec2Isabelle
  imports Complex_Main "HOL-Library.Sublist"
begin

section \<open>Python values\<close>

text \<open>
  A Python \<open>str\<close> is a sequence of Unicode code points; \<open>len\<close> counts code points.
  The byte-order mark U+FEFF is one code point, so text is modelled as a list of code
  points rather than of bytes. \<open>str\<close> embeds an ASCII literal.
\<close>

type_synonym codepoint = nat
type_synonym pystr = "codepoint list"

definition str :: "string \<Rightarrow> pystr" where
  "str s = map of_char s"

definition newline :: codepoint where
  "newline = 10"

definition bom :: codepoint where
  "bom = 0xFEFF"

definition lbracket :: codepoint where
  "lbracket = 91"

text \<open>
  The exceptions the analysis can meet. \<open>External\<close> is an exception raised inside a
  library call (scikit-learn); \<open>NanResult\<close> stands for numpy's \<open>nan\<close> on an empty
  array, which the reals do not have.
\<close>

datatype exn = ZeroDivisionError | IndexError | ValueError | NanResult | External pystr

definition exn_bind :: "exn + 'a \<Rightarrow> ('a \<Rightarrow> exn + 'b) \<Rightarrow> exn + 'b" where
  "exn_bind m f = (case m of Inl e \<Rightarrow> Inl e | Inr x \<Rightarrow> f x)"

fun traverse :: "('a \<Rightarrow> exn + 'b) \<Rightarrow> 'a list \<Rightarrow> exn + 'b list" where
  "traverse f [] = Inr []"
| "traverse f (x # xs) =
     exn_bind (f x) (\<lambda>y. exn_bind (traverse f xs) (\<lambda>ys. Inr (y # ys)))"

text \<open>\<open>str.isspace\<close> of one character: the white-space code points of CPython.\<close>

definition isspace :: "codepoint \<Rightarrow> bool" where
  "isspace c \<longleftrightarrow>
     (9 \<le> c \<and> c \<le> 13) \<or> (28 \<le> c \<and> c \<le> 32) \<or> c = 0x85 \<or> c = 0xA0 \<or> c = 0x1680 \<or>
     (0x2000 \<le> c \<and> c \<le> 0x200A) \<or> c = 0x2028 \<or> c = 0x2029 \<or> c = 0x202F \<or>
     c = 0x205F \<or> c = 0x3000"

definition lstrip :: "pystr \<Rightarrow> pystr" where
  "lstrip s = dropWhile isspace s"

definition rstrip :: "pystr \<Rightarrow> pystr" where
  "rstrip s = rev (dropWhile isspace (rev s))"

text \<open>\<open>s.strip()\<close>\<close>

definition strip :: "pystr \<Rightarrow> pystr" where
  "strip s = rstrip (lstrip s)"

text \<open>\<open>s.lstrip(chars)\<close>: removes every leading character that is in \<open>chars\<close>.\<close>

definition lstrip_chars :: "pystr \<Rightarrow> pystr \<Rightarrow> pystr" where
  "lstrip_chars chars s = dropWhile (\<lambda>c. c \<in> set chars) s"

fun startswith :: "'a list \<Rightarrow> 'a list \<Rightarrow> bool" where
  "startswith s [] = True"
| "startswith [] (p # ps) = False"
| "startswith (c # cs) (p # ps) = (c = p \<and> startswith cs ps)"

text \<open>The lowest index at which \<open>sub\<close> occurs in \<open>s\<close>.\<close>

fun find_first :: "'a list \<Rightarrow> 'a list \<Rightarrow> nat option" where
  "find_first sub [] = (if sub = [] then Some 0 else None)"
| "find_first sub (c # cs) =
     (if startswith (c # cs) sub then Some 0 else map_option Suc (find_first sub cs))"

text \<open>\<open>s.find(sub, start)\<close> for \<open>start \<ge> 0\<close>: the index, or \<open>-1\<close>.\<close>

definition py_find :: "'a list \<Rightarrow> 'a list \<Rightarrow> nat \<Rightarrow> int" where
  "py_find s sub start =
     (case find_first sub (drop start s) of None \<Rightarrow> - 1 | Some i \<Rightarrow> int (start + i))"

text \<open>\<open>s[i:j]\<close>, with Python's clipping of both bounds.\<close>

definition py_slice :: "'a list \<Rightarrow> int \<Rightarrow> int \<Rightarrow> 'a list" where
  "py_slice s i j =
     (let n = int (length s);
          lo = (if i < 0 then max (n + i) 0 else min i n);
          hi = (if j < 0 then max (n + j) 0 else min j n)
      in take (nat (hi - lo)) (drop (nat lo) s))"

text \<open>\<open>s[i:]\<close>\<close>

definition py_slice_from :: "'a list \<Rightarrow> int \<Rightarrow> 'a list" where
  "py_slice_from s i =
     (let n = int (length s);
          lo = (if i < 0 then max (n + i) 0 else min i n)
      in drop (nat lo) s)"

text \<open>\<open>xs[i]\<close> for \<open>i \<ge> 0\<close>: IndexError out of range.\<close>

definition py_index :: "'a list \<Rightarrow> nat \<Rightarrow> exn + 'a" where
  "py_index xs i = (if i < length xs then Inr (xs ! i) else Inl IndexError)"

text \<open>\<open>a / b\<close> on numbers: the quotient, before it is rounded to a float.\<close>

definition py_div :: "real \<Rightarrow> real \<Rightarrow> exn + real" where
  "py_div a b = (if b = 0 then Inl ZeroDivisionError else Inr (a / b))"

text \<open>The nearest integer, ties to even.\<close>

definition round_half_even :: "real \<Rightarrow> int" where
  "round_half_even x =
     (let f = \<lfloor>x\<rfloor>; d = x - of_int f
      in if d < 1 / 2 then f else if 1 / 2 < d then f + 1 else if even f then f else f + 1)"

section \<open>Regular expressions of the header\<close>

text \<open>
  \<open>re.search\<close> tries the pattern at every position from the left and returns the first
  match. The patterns are matched as the backtracking engine does: \<open>k\<close> is the rest of
  the pattern, and a failure of \<open>k\<close> makes the quantifier give up a character.
\<close>

fun re_search :: "(pystr \<Rightarrow> 'a option) \<Rightarrow> pystr \<Rightarrow> 'a option" where
  "re_search m [] = m []"
| "re_search m (c # cs) = (case m (c # cs) of Some r \<Rightarrow> Some r | None \<Rightarrow> re_search m cs)"

definition match_literal :: "pystr \<Rightarrow> (pystr \<Rightarrow> 'a option) \<Rightarrow> pystr \<Rightarrow> 'a option" where
  "match_literal lit k s = (if startswith s lit then k (drop (length lit) s) else None)"

text \<open>\<open>\s*\<close>, greedy: the longest run of white space first, then shorter ones.\<close>

fun match_ws_star :: "(pystr \<Rightarrow> 'a option) \<Rightarrow> pystr \<Rightarrow> 'a option" where
  "match_ws_star k [] = k []"
| "match_ws_star k (c # cs) =
     (if isspace c
      then (case match_ws_star k cs of Some r \<Rightarrow> Some r | None \<Rightarrow> k (c # cs))
      else k (c # cs))"

text \<open>\<open>.\<close> without DOTALL: any character but the newline.\<close>

definition dot :: "codepoint \<Rightarrow> bool" where
  "dot c \<longleftrightarrow> c \<noteq> newline"

text \<open>\<open>(.+)\<close> at the end of a pattern, greedy: the group is the longest run, at least one
  character.\<close>

definition match_dot_plus :: "pystr \<Rightarrow> pystr option" where
  "match_dot_plus s = (let g = takeWhile dot s in if g = [] then None else Some g)"

text \<open>\<open>(?:\[|$)\<close> with no MULTILINE flag: \<open>$\<close> holds at the end of the text and before a
  newline that ends the text.\<close>

definition match_bracket_or_end :: "pystr \<Rightarrow> bool" where
  "match_bracket_or_end s \<longleftrightarrow>
     (case s of [] \<Rightarrow> False | c # cs \<Rightarrow> c = lbracket) \<or> s = [] \<or> s = [newline]"

text \<open>\<open>(.+?)(?:\[|$)\<close>, lazy: \<open>acc\<close> is what the group holds so far; it grows by one
  character whenever the rest of the pattern fails.\<close>

fun match_dot_lazy :: "pystr \<Rightarrow> pystr \<Rightarrow> pystr option" where
  "match_dot_lazy acc [] = (if acc \<noteq> [] \<and> match_bracket_or_end [] then Some acc else None)"
| "match_dot_lazy acc (c # cs) =
     (if acc \<noteq> [] \<and> match_bracket_or_end (c # cs) then Some acc
      else if dot c then match_dot_lazy (acc @ [c]) cs else None)"

text \<open>\<open>Title:\s*(.+)\<close> and its siblings, each returning group 1.\<close>

definition title_re :: "pystr \<Rightarrow> pystr option" where
  "title_re = match_literal (str ''Title:'') (match_ws_star match_dot_plus)"

definition author_re :: "pystr \<Rightarrow> pystr option" where
  "author_re = match_literal (str ''Author:'') (match_ws_star match_dot_plus)"

definition date_re :: "pystr \<Rightarrow> pystr option" where
  "date_re = match_literal (str ''Release date:'') (match_ws_star (match_dot_lazy []))"

definition lang_re :: "pystr \<Rightarrow> pystr option" where
  "lang_re = match_literal (str ''Language:'') (match_ws_star match_dot_plus)"

section \<open>The document\<close>

record metadata =
  meta_pg_id :: pystr
  title :: "pystr option"
  author :: "pystr option"
  release_date :: "pystr option"
  language :: "pystr option"

definition extract_metadata :: "pystr \<Rightarrow> pystr \<Rightarrow> metadata" where
  "extract_metadata pgid raw_content =
     \<lparr>meta_pg_id = pgid,
      title = map_option strip (re_search title_re raw_content),
      author = map_option strip (re_search author_re raw_content),
      release_date = map_option strip (re_search date_re raw_content),
      language = map_option strip (re_search lang_re raw_content)\<rparr>"

definition start_marker :: pystr where
  "start_marker = str ''*** START OF THE PROJECT GUTENBERG EBOOK''"

definition end_marker :: pystr where
  "end_marker = str ''*** END OF THE PROJECT GUTENBERG EBOOK''"

definition extract_body :: "pystr \<Rightarrow> pystr" where
  "extract_body raw_content =
     (let start_idx = py_find raw_content start_marker 0;
          end_idx = py_find raw_content end_marker 0
      in if start_idx \<noteq> - 1 \<and> end_idx \<noteq> - 1
         then (let start_idx' = py_find raw_content [newline] (nat start_idx) + 1;
                   body = strip (py_slice raw_content start_idx' end_idx)
               in lstrip_chars [bom] body)
         else [])"

record document =
  pg_id :: pystr
  raw_content :: pystr
  doc_metadata :: metadata
  body_text :: pystr

text \<open>The constructor, given the file's stem and its content.\<close>

definition init :: "pystr \<Rightarrow> pystr \<Rightarrow> document" where
  "init stem content =
     \<lparr>pg_id = stem, raw_content = content,
      doc_metadata = extract_metadata stem content,
      body_text = extract_body content\<rparr>"


text \<open>
  The body as the specification words it: the text strictly between the end of the
  start marker's line and the start of the end marker, stripped of white space and then
  of the leading byte-order mark; empty when a marker is absent. The start marker's line
  ends after the first newline at or after the marker, or with the text.
\<close>

definition end_of_marker_line :: "pystr \<Rightarrow> nat \<Rightarrow> nat" where
  "end_of_marker_line raw i =
     (case find_first [newline] (drop i raw) of Some k \<Rightarrow> i + k + 1 | None \<Rightarrow> length raw)"

definition body_text_spec :: "pystr \<Rightarrow> pystr" where
  "body_text_spec raw =
     (case find_first start_marker raw of None \<Rightarrow> []
      | Some i \<Rightarrow>
         (case find_first end_marker raw of None \<Rightarrow> []
          | Some e \<Rightarrow>
             (let l = end_of_marker_line raw i
              in lstrip_chars [bom] (strip (take (e - l) (drop l raw))))))"

section \<open>Sentiment classification\<close>

definition classify_sentiment :: "real \<Rightarrow> string" where
  "classify_sentiment compound_score =
     (if compound_score \<ge> 0.05 then ''positive''
      else if compound_score \<le> - 0.05 then ''negative''
      else ''neutral'')"

section \<open>The linguistic resources\<close>

text \<open>
  The analysis calls NLTK, VADER, scikit-learn and numpy, and the Unicode tables of
  Python's \<open>str\<close>. None of them is code of this program, so they are parameters:
  \<^item> \<open>lower_at s i\<close> is the lower-case mapping of the character at index \<open>i\<close> of \<open>s\<close>
    (it may be several characters, and may depend on the context), \<open>alpha\<close> is
    \<open>str.isalpha\<close> of one character;
  \<^item> the tokenizers, the lemmatizer and the polarity scorer are functions of their
    argument: they are taken to return, as they do once their data is installed, and
    what they return is left open;
  \<^item> fitting the vectorizer and the topic model may raise; the vectorizer yields its
    feature names and the document-term matrix, the model its \<open>components_\<close>;
  \<^item> \<open>argsort\<close> is numpy's, whose order among equal weights is not fixed;
  \<^item> \<open>nearest64\<close> is the binary64 number nearest to a real that is not 0, as the
    platform's float arithmetic rounds it.
\<close>

record scores =
  vader_neg :: real
  vader_neu :: real
  vader_pos :: real
  vader_compound :: real

record nlp =
  lower_at :: "pystr \<Rightarrow> nat \<Rightarrow> pystr"
  alpha :: "codepoint \<Rightarrow> bool"
  word_tokenize :: "pystr \<Rightarrow> pystr list"
  sent_tokenize :: "pystr \<Rightarrow> pystr list"
  lemmatize :: "pystr \<Rightarrow> pystr"
  stop_words :: "pystr set"
  polarity_scores :: "pystr \<Rightarrow> scores"
  fit_transform :: "pystr list \<Rightarrow> exn + pystr list \<times> nat list list"
  lda_fit :: "int \<Rightarrow> nat list list \<Rightarrow> exn + real list list"
  argsort :: "real list \<Rightarrow> nat list"
  nearest64 :: "real \<Rightarrow> real"

text \<open>The float of a real: 0 is a binary64 number, any other real is rounded.\<close>

definition binary64 :: "nlp \<Rightarrow> real \<Rightarrow> real" where
  "binary64 env x = (if x = 0 then 0 else nearest64 env x)"

text \<open>
  \<open>round(x, ndigits)\<close> of a quotient or mean \<open>x\<close>, which reaches \<open>round\<close> as a float:
  the float is rounded, in exact decimal arithmetic, to the nearest multiple of
  \<open>10 ^ -ndigits\<close>, ties to even, and the float nearest to that decimal is returned.
\<close>

definition py_round :: "nlp \<Rightarrow> real \<Rightarrow> nat \<Rightarrow> real" where
  "py_round env x ndigits =
     binary64 env (of_int (round_half_even (binary64 env x * 10 ^ ndigits)) / 10 ^ ndigits)"

text \<open>\<open>s.lower()\<close> and \<open>s.isalpha()\<close>\<close>

definition lower :: "nlp \<Rightarrow> pystr \<Rightarrow> pystr" where
  "lower env s = concat (map (lower_at env s) [0..<length s])"

definition isalpha :: "nlp \<Rightarrow> pystr \<Rightarrow> bool" where
  "isalpha env s \<longleftrightarrow> s \<noteq> [] \<and> list_all (alpha env) s"

section \<open>Preprocessing\<close>

definition preprocess :: "nlp \<Rightarrow> document \<Rightarrow> pystr list" where
  "preprocess env self =
     (let tokens = word_tokenize env (lower env (body_text self))
      in [lemmatize env token.
            token \<leftarrow> tokens,
            isalpha env token \<and> token \<notin> stop_words env \<and> length token > 2])"

text \<open>
  The preprocessor as the specification words it: a token is retained if and only if it
  consists entirely of alphabetic characters, is no stop word and is longer than 2;
  the retained tokens are lemmatized, in their order.
\<close>

definition retained :: "nlp \<Rightarrow> pystr \<Rightarrow> bool" where
  "retained env token \<longleftrightarrow>
     (\<forall>c \<in> set token. alpha env c) \<and> token \<notin> stop_words env \<and> length token > 2"

definition preprocess_spec :: "nlp \<Rightarrow> pystr \<Rightarrow> pystr list" where
  "preprocess_spec env body =
     map (lemmatize env) (filter (retained env) (word_tokenize env (lower env body)))"

section \<open>Frequencies\<close>

text \<open>
  \<open>Counter(tokens)\<close> is a dictionary in insertion order: a token met for the first
  time is appended with count 1, a token met again has its count raised in place.
\<close>

fun counter_add :: "('k \<times> nat) list \<Rightarrow> 'k \<Rightarrow> ('k \<times> nat) list" where
  "counter_add [] w = [(w, 1)]"
| "counter_add ((k, c) # kvs) w =
     (if k = w then (k, c + 1) # kvs else (k, c) # counter_add kvs w)"

definition Counter :: "'k list \<Rightarrow> ('k \<times> nat) list" where
  "Counter tokens = foldl counter_add [] tokens"

text \<open>\<open>most_common(n)\<close>: the \<open>n\<close> first items of a stable sort by count, descending.\<close>

definition most_common :: "nat \<Rightarrow> ('k \<times> nat) list \<Rightarrow> ('k \<times> nat) list" where
  "most_common n items = take n (sort_key (\<lambda>(w, c). - int c) items)"

record word_entry =
  word :: pystr
  count :: nat
  frequency :: real

definition build_bag_of_words :: "pystr list \<Rightarrow> exn + word_entry list \<times> (pystr \<times> nat) list" where
  "build_bag_of_words tokens =
     (let word_counts = Counter tokens;
          total_words = length tokens
      in exn_bind
           (traverse
              (\<lambda>(w, c).
                 exn_bind (if total_words > 0 then py_div (real c) (real total_words) else Inr 0)
                   (\<lambda>f. Inr \<lparr>word = w, count = c, frequency = f\<rparr>))
              (most_common 50 word_counts))
           (\<lambda>bag_of_words. Inr (bag_of_words, word_counts)))"

text \<open>The index of the first occurrence of \<open>x\<close> in \<open>xs\<close>.\<close>

definition first_seen :: "'a list \<Rightarrow> 'a \<Rightarrow> nat" where
  "first_seen xs x = length (takeWhile (\<lambda>y. y \<noteq> x) xs)"

section \<open>Sentiment\<close>

text \<open>numpy's reductions. On an empty array \<open>min\<close> and \<open>max\<close> raise ValueError;
  \<open>mean\<close> and \<open>std\<close> return \<open>nan\<close>.\<close>

definition np_mean :: "real list \<Rightarrow> exn + real" where
  "np_mean xs = (if xs = [] then Inl NanResult else Inr (sum_list xs / real (length xs)))"

definition np_std :: "real list \<Rightarrow> exn + real" where
  "np_std xs =
     (if xs = [] then Inl NanResult
      else (let m = sum_list xs / real (length xs)
            in Inr (sqrt (sum_list (map (\<lambda>x. (x - m)\<^sup>2) xs) / real (length xs)))))"

definition np_min :: "real list \<Rightarrow> exn + real" where
  "np_min xs = (if xs = [] then Inl ValueError else Inr (Min (set xs)))"

definition np_max :: "real list \<Rightarrow> exn + real" where
  "np_max xs = (if xs = [] then Inl ValueError else Inr (Max (set xs)))"

record sentence_stats =
  s_mean :: real
  s_std :: real
  s_min :: real
  s_max :: real

record sentiment_record =
  compound :: real
  positive :: real
  negative :: real
  neutral :: real
  classification :: string
  sentence_sentiments :: sentence_stats

definition analyze_sentiment :: "nlp \<Rightarrow> document \<Rightarrow> exn + sentiment_record" where
  "analyze_sentiment env self =
     (let scores = polarity_scores env (body_text self);
          sentences = sent_tokenize env (body_text self);
          sentence_sentiments =
            [vader_compound (polarity_scores env sent). sent \<leftarrow> sentences, strip sent \<noteq> []]
      in exn_bind (if sentence_sentiments \<noteq> [] then np_mean sentence_sentiments else Inr 0) (\<lambda>m.
         exn_bind (if sentence_sentiments \<noteq> [] then np_std sentence_sentiments else Inr 0) (\<lambda>s.
         exn_bind (if sentence_sentiments \<noteq> [] then np_min sentence_sentiments else Inr 0) (\<lambda>lo.
         exn_bind (if sentence_sentiments \<noteq> [] then np_max sentence_sentiments else Inr 0) (\<lambda>hi.
           Inr \<lparr>compound = vader_compound scores,
                positive = vader_pos scores,
                negative = vader_neg scores,
                neutral = vader_neu scores,
                classification = classify_sentiment (vader_compound scores),
                sentence_sentiments = \<lparr>s_mean = m, s_std = s, s_min = lo, s_max = hi\<rparr>\<rparr>)))))"

section \<open>Style\<close>

record style_record =
  type_token_ratio :: real
  unique_words :: nat
  total_words :: nat
  unique_words_all :: nat
  total_words_all :: nat
  avg_word_length :: real
  avg_sentence_length :: real
  total_sentences :: nat
  vocabulary_richness :: real

definition analyze_style :: "nlp \<Rightarrow> document \<Rightarrow> pystr list \<Rightarrow> exn + style_record" where
  "analyze_style env self tokens =
     (let all_tokens = word_tokenize env (lower env (body_text self));
          all_words = filter (isalpha env) all_tokens;
          sentences = sent_tokenize env (body_text self);
          unique_words = card (set tokens);
          total_words = length tokens
      in exn_bind (if total_words > 0 then py_div (real unique_words) (real total_words) else Inr 0) (\<lambda>ttr.
         let unique_all = card (set all_words);
             total_all = length all_words
         in exn_bind (if tokens \<noteq> [] then np_mean (map (\<lambda>word. real (length word)) tokens) else Inr 0) (\<lambda>avg_word_length.
            exn_bind (if sentences \<noteq> [] then py_div (real (length all_words)) (real (length sentences)) else Inr 0) (\<lambda>avg_sentence_length.
            exn_bind (if total_all > 0 then py_div (real unique_all) (real total_all) else Inr 0) (\<lambda>richness.
              Inr \<lparr>type_token_ratio = py_round env ttr 4,
                   unique_words = unique_words,
                   total_words = total_words,
                   unique_words_all = unique_all,
                   total_words_all = total_all,
                   avg_word_length = py_round env avg_word_length 2,
                   avg_sentence_length = py_round env avg_sentence_length 2,
                   total_sentences = length sentences,
                   vocabulary_richness = py_round env richness 4\<rparr>)))))"

section \<open>Topics\<close>

record topic =
  topic_id :: int
  words :: "pystr list"
  weight :: real

text \<open>What \<open>print\<close> writes: the warning of a failed fit, for a document and an exception.\<close>

datatype event = Printed_warning pystr exn

text \<open>\<open>topic.argsort()[-n_words:][::-1]\<close>\<close>

definition top_indices :: "nlp \<Rightarrow> real list \<Rightarrow> int \<Rightarrow> nat list" where
  "top_indices env topic n_words = rev (py_slice_from (argsort env topic) (- n_words))"

text \<open>The body of the loop over \<open>enumerate(lda.components_)\<close>.\<close>

definition topic_entry :: "nlp \<Rightarrow> pystr list \<Rightarrow> int \<Rightarrow> nat \<times> real list \<Rightarrow> exn + topic" where
  "topic_entry env feature_names n_words =
     (\<lambda>(topic_idx, topic).
        let top = top_indices env topic n_words
        in exn_bind (traverse (py_index feature_names) top) (\<lambda>top_words.
           exn_bind (py_index top 0) (\<lambda>first.
           exn_bind (py_index topic first) (\<lambda>w.
             Inr \<lparr>topic_id = int topic_idx + 1, words = top_words, weight = w\<rparr>))))"

text \<open>The \<open>try\<close> block.\<close>

definition fit_topics :: "nlp \<Rightarrow> pystr list \<Rightarrow> int \<Rightarrow> int \<Rightarrow> exn + topic list" where
  "fit_topics env sentences n_topics n_words =
     exn_bind (fit_transform env sentences) (\<lambda>(feature_names, doc_term_matrix).
     exn_bind (lda_fit env n_topics doc_term_matrix) (\<lambda>components.
       traverse (topic_entry env feature_names n_words) (enumerate 0 components)))"

definition extract_topics :: "nlp \<Rightarrow> document \<Rightarrow> int \<Rightarrow> int \<Rightarrow> topic list \<times> event list" where
  "extract_topics env self n_topics n_words =
     (let sentences = sent_tokenize env (body_text self)
      in if int (length sentences) < n_topics then ([], [])
         else (case fit_topics env sentences n_topics n_words of
                 Inr topics \<Rightarrow> (topics, [])
               | Inl e \<Rightarrow> ([], [Printed_warning (pg_id self) e])))"

text \<open>What the index list of a row must be for \<open>argsort\<close>: a permutation of the row's
  indices along which the weights do not decrease.\<close>

definition sorts :: "nat list \<Rightarrow> real list \<Rightarrow> bool" where
  "sorts idx row \<longleftrightarrow>
     distinct idx \<and> set idx = {..<length row} \<and> sorted (map (\<lambda>i. row ! i) idx)"

section \<open>The analysis of one document\<close>

record result =
  res_id :: pystr
  res_metadata :: metadata
  top_words :: "word_entry list"
  word_frequencies :: "(pystr \<times> nat) list"
  sentiment :: sentiment_record
  style_metrics :: style_record
  topics :: "topic list"

text \<open>\<open>analyze\<close>, with the defaults \<open>n_topics = 3\<close> and \<open>n_words = 8\<close>; what it prints is
  left out.\<close>

definition analyze :: "nlp \<Rightarrow> document \<Rightarrow> exn + result" where
  "analyze env self =
     (let tokens = preprocess env self
      in exn_bind (build_bag_of_words tokens) (\<lambda>(top, freqs).
         exn_bind (analyze_sentiment env self) (\<lambda>sent.
         exn_bind (analyze_style env self tokens) (\<lambda>style.
           let found = fst (extract_topics env self 3 8)
           in Inr \<lparr>res_id = pg_id self,
                   res_metadata = doc_metadata self,
                   top_words = top,
                   word_frequencies = freqs,
                   sentiment = sent,
                   style_metrics = style,
                   topics = found\<rparr>))))"

section \<open>Stand-ins for the resources, and sample documents\<close>

text \<open>
  Small executable resources for ASCII text, used where a statement is evaluated on a
  sample: tokens are the runs between white space, sentences the runs between full
  stops, the lemma drops a final \<open>s\<close>, the vectorizer knows three terms, the float
  rounding is a table of the values met.
\<close>

fun split_on :: "('a \<Rightarrow> bool) \<Rightarrow> 'a list \<Rightarrow> 'a list \<Rightarrow> 'a list list" where
  "split_on sep acc [] = (if acc = [] then [] else [acc])"
| "split_on sep acc (c # cs) =
     (if sep c then (if acc = [] then split_on sep [] cs else acc # split_on sep [] cs)
      else split_on sep (acc @ [c]) cs)"

definition sample_scores :: "pystr \<Rightarrow> scores" where
  "sample_scores s = \<lparr>vader_neg = 0, vader_neu = 0, vader_pos = 0, vader_compound = 0\<rparr>"

definition sample_vocabulary :: "pystr list" where
  "sample_vocabulary = [str ''cat'', str ''dog'', str ''sun'']"

definition sample_fit_transform :: "pystr list \<Rightarrow> exn + pystr list \<times> nat list list" where
  "sample_fit_transform sentences =
     (if sentences = [] then Inl (External (str ''empty vocabulary''))
      else Inr (sample_vocabulary, map (\<lambda>s. [1, 0, 2]) sentences))"

definition sample_lda_fit :: "int \<Rightarrow> nat list list \<Rightarrow> exn + real list list" where
  "sample_lda_fit n matrix =
     (if n \<le> 0 then Inl (External (str ''n_components''))
      else Inr (map (\<lambda>k. [real k + 1 / 2, 5 / 2, 3 / 2]) [0..<nat n]))"

text \<open>The binary64 numbers nearest to 2/3 and to 0.6667; the other numbers met in the
  samples are binary64 numbers.\<close>

definition sample_nearest64 :: "real \<Rightarrow> real" where
  "sample_nearest64 x =
     (if x = 2 / 3 then 6004799503160661 / 9007199254740992
      else if x = 6667 / 10000 then 6005099743135819 / 9007199254740992
      else x)"

definition sample_env :: nlp where
  "sample_env =
     \<lparr>lower_at = (\<lambda>s i. let c = s ! i in if 65 \<le> c \<and> c \<le> 90 then [c + 32] else [c]),
      alpha = (\<lambda>c. (65 \<le> c \<and> c \<le> 90) \<or> (97 \<le> c \<and> c \<le> 122)),
      word_tokenize = split_on isspace [],
      sent_tokenize = split_on (\<lambda>c. c = 46) [],
      lemmatize = (\<lambda>w. if w \<noteq> [] \<and> last w = 115 then butlast w else w),
      stop_words = {str ''the'', str ''and'', str ''was''},
      polarity_scores = sample_scores,
      fit_transform = sample_fit_transform,
      lda_fit = sample_lda_fit,
      argsort = (\<lambda>row. sort_key (\<lambda>i. row ! i) [0..<length row]),
      nearest64 = sample_nearest64\<rparr>"





definition series_title_raw :: pystr where
  "series_title_raw =
     str ''Series Title: Baz\<newline>Title: Foo\<newline>Author: Bar\<newline>*** START OF THE PROJECT GUTENBERG EBOOK FOO ***\<newline>Text.\<newline>*** END OF THE PROJECT GUTENBERG EBOOK FOO ***\<newline>''"

definition sample_doc :: document where
  "sample_doc = init (str ''pg1'')
     (str ''Title: Foo\<newline>*** START OF THE PROJECT GUTENBERG EBOOK FOO ***\<newline>The cats and the Dogs sat. Cats ran fast.\<newline>*** END OF THE PROJECT GUTENBERG EBOOK FOO ***\<newline>'')"

definition thirds_doc :: document where
  "thirds_doc = init (str ''pg2'')
     (str ''*** START OF THE PROJECT GUTENBERG EBOOK BAR ***\<newline>Cats cats dogs\<newline>*** END OF THE PROJECT GUTENBERG EBOOK BAR ***\<newline>'')"

text \<open>The document of the specification's scenario: two sentences and no marker.\<close>

definition unmarked_doc :: document where
  "unmarked_doc = init (str ''pg7'') (str ''The cat sat. The cat ran fast.'')"

definition sample_tokens :: "pystr list" where
  "sample_tokens = [str ''bee'', str ''ant'', str ''cow'', str ''ant'', str ''bee'', str ''doe'']"

text \<open>Resources whose vectorizer raises.\<close>

definition failing_env :: nlp where
  "failing_env = sample_env\<lparr>fit_transform := \<lambda>s. Inl (External (str ''empty vocabulary''))\<rparr>"

section \<open>Closed forms used in the proofs\<close>

text \<open>The count of a key in a Counter, 0 when it is absent.\<close>

definition cnt :: "('k \<times> nat) list \<Rightarrow> 'k \<Rightarrow> nat" where
  "cnt kvs w = (case map_of kvs w of None \<Rightarrow> 0 | Some c \<Rightarrow> c)"

text \<open>The entry that \<open>build_bag_of_words\<close> makes of an item, for \<open>n\<close> tokens in all.\<close>

definition entry_of :: "nat \<Rightarrow> pystr \<times> nat \<Rightarrow> word_entry" where
  "entry_of n = (\<lambda>(w, c). \<lparr>word = w, count = c, frequency = real c / real n\<rparr>)"

text \<open>The record that \<open>analyze_style\<close> returns.\<close>

definition style_of :: "nlp \<Rightarrow> document \<Rightarrow> pystr list \<Rightarrow> style_record" where
  "style_of env self tokens =
     (let all_words = filter (isalpha env) (word_tokenize env (lower env (body_text self)));
          sentences = sent_tokenize env (body_text self)
      in \<lparr>type_token_ratio =
             py_round env (if length tokens = 0 then 0
                       else real (card (set tokens)) / real (length tokens)) 4,
           unique_words = card (set tokens),
           total_words = length tokens,
           unique_words_all = card (set all_words),
           total_words_all = length all_words,
           avg_word_length =
             py_round env (if tokens = [] then 0
                       else sum_list (map (\<lambda>word. real (length word)) tokens) / real (length tokens)) 2,
           avg_sentence_length =
             py_round env (if sentences = [] then 0
                       else real (length all_words) / real (length sentences)) 2,
           total_sentences = length sentences,
           vocabulary_richness =
             py_round env (if length all_words = 0 then 0
                       else real (card (set all_words)) / real (length all_words)) 4\<rparr>)"

text \<open>The record that the loop of \<open>extract_topics\<close> makes of a row, when nothing raises.\<close>

definition topic_of :: "nlp \<Rightarrow> pystr list \<Rightarrow> int \<Rightarrow> nat \<times> real list \<Rightarrow> topic" where
  "topic_of env names k =
     (\<lambda>(i, row). \<lparr>topic_id = int i + 1,
                  words = map (\<lambda>j. names ! j) (top_indices env row k),
                  weight = row ! hd (top_indices env row k)\<rparr>)"

section \<open>Properties\<close>

subsection \<open>Evaluation\<close>

lemmas text_defs = str_def newline_def bom_def lbracket_def isspace_def
  strip_def lstrip_def rstrip_def lstrip_chars_def py_find_def py_slice_def
  start_marker_def end_marker_def

lemmas regex_defs = match_literal_def match_dot_plus_def match_bracket_or_end_def dot_def
  title_re_def author_re_def date_re_def lang_re_def

subsection \<open>Searching\<close>

lemma startswith_length: "startswith s p \<Longrightarrow> length p \<le> length s"
  by (induction s p rule: startswith.induct) auto

lemma find_first_bound: "find_first sub s = Some i \<Longrightarrow> i + length sub \<le> length s"
proof (induction s arbitrary: i)
  case Nil
  then show ?case by (simp split: if_splits)
next
  case (Cons c cs)
  show ?case
  proof (cases "startswith (c # cs) sub")
    case True
    with Cons.prems startswith_length [OF True] show ?thesis by simp
  next
    case False
    with Cons.prems obtain j where "find_first sub cs = Some j" "i = Suc j" by auto
    with Cons.IH show ?thesis by simp
  qed
qed

lemma py_slice_nat:
  "j \<le> length s \<Longrightarrow> e \<le> length s \<Longrightarrow> py_slice s (int j) (int e) = take (e - j) (drop j s)"
  by (simp add: py_slice_def Let_def min_def nat_diff_distrib')

subsection \<open>The body\<close>

text \<open>With a marker absent the body is empty.\<close>

lemma extract_body_absent:
  "find_first start_marker raw = None \<or> find_first end_marker raw = None \<Longrightarrow>
   extract_body raw = []"
  by (auto simp: extract_body_def py_find_def Let_def split: option.splits)

text \<open>When a newline follows the start marker, the body is the one the specification
  describes.\<close>

lemma extract_body_refines:
  assumes "find_first start_marker raw = Some i" "find_first [newline] (drop i raw) = Some k"
  shows "extract_body raw = body_text_spec raw"
proof (cases "find_first end_marker raw")
  case None
  then show ?thesis
    by (simp add: extract_body_absent body_text_spec_def assms)
next
  case (Some e)
  from find_first_bound [OF assms(2)] have k: "i + k + 1 \<le> length raw" by simp
  from find_first_bound [OF Some] have e: "e \<le> length raw" by simp
  have "py_slice raw (int (i + k) + 1) (int e) = take (e - (i + k + 1)) (drop (i + k + 1) raw)"
    using py_slice_nat [OF k e] by (simp add: add.commute)
  then show ?thesis
    using assms Some
    by (simp add: extract_body_def body_text_spec_def end_of_marker_line_def py_find_def Let_def)
qed

text \<open>
  C1. The body is the text strictly between the end of the start marker's line and the
  start of the end marker, stripped. In a text where no newline follows the start marker,
  \<open>find\<close> answers \<open>-1\<close>, the slice starts at index 0, and the body is the text from the
  beginning of the file, start marker included, where the text between the end of the
  marker's line and the end marker is empty.
\<close>

theorem extract_body_single_line:
  "extract_body (str ''*** START OF THE PROJECT GUTENBERG EBOOK FOO *** Text. *** END OF THE PROJECT GUTENBERG EBOOK FOO ***'')
     = str ''*** START OF THE PROJECT GUTENBERG EBOOK FOO *** Text.'' \<and>
   body_text_spec (str ''*** START OF THE PROJECT GUTENBERG EBOOK FOO *** Text. *** END OF THE PROJECT GUTENBERG EBOOK FOO ***'')
     = []"
  by (simp add: extract_body_def body_text_spec_def end_of_marker_line_def text_defs)

subsection \<open>The header\<close>




text \<open>Each field is the stripped group of its own pattern, whatever the others find.\<close>

lemma extract_metadata_fields:
  "title (extract_metadata pgid raw) = map_option strip (re_search title_re raw)"
  "author (extract_metadata pgid raw) = map_option strip (re_search author_re raw)"
  "release_date (extract_metadata pgid raw) = map_option strip (re_search date_re raw)"
  "language (extract_metadata pgid raw) = map_option strip (re_search lang_re raw)"
  by (simp_all add: extract_metadata_def)

text \<open>
  C8. The release date runs to the first \<open>[\<close> or to the end of its line. The pattern's
  \<open>$\<close> is compiled without the MULTILINE flag and holds only at the end of the text: a
  date line without a bracket that is followed by another line gives no match, and the
  field is None.
\<close>

theorem release_date_line_without_bracket:
  "release_date (extract_metadata pgid
     (str ''Release date: January 1, 2000\<newline>Language: English\<newline>'')) = None"
  by (simp add: extract_metadata_def text_defs regex_defs)

text \<open>The same line with a bracket, and the same line as the last of the text.\<close>

lemma release_date_line_with_bracket:
  "release_date (extract_metadata pgid
     (str ''Release date: January 1, 2000 [eBook #1]\<newline>Language: English\<newline>''))
   = Some (str ''January 1, 2000'')"
  by (simp add: extract_metadata_def text_defs regex_defs)

lemma release_date_last_line:
  "release_date (extract_metadata pgid
     (str ''Language: English\<newline>Release date: January 1, 2000\<newline>''))
   = Some (str ''January 1, 2000'')"
  by (simp add: extract_metadata_def text_defs regex_defs)


text \<open>Likewise the header line \<open>Series Title: Baz\<close> before the title gives the title
  \<open>Baz\<close>.\<close>

lemma title_found_inside_line:
  "extract_metadata (str ''pg1'') series_title_raw =
    \<lparr>meta_pg_id = str ''pg1'', title = Some (str ''Baz''), author = Some (str ''Bar''),
     release_date = None, language = None\<rparr>"
  by (simp add: series_title_raw_def extract_metadata_def text_defs regex_defs)



subsection \<open>Sentiment classes\<close>

text \<open>
  C5. The class is a function of the compound score alone, with the fixed thresholds
  0.05 and -0.05: a score of at least 0.05 is positive, a score of at most -0.05 is
  negative, every other score is neutral; 0.05 itself is positive, -0.05 negative and
  0 neutral.
\<close>

theorem classify_sentiment_thresholds:
  "(c \<ge> 0.05 \<longrightarrow> classify_sentiment c = ''positive'') \<and>
   (c \<le> - 0.05 \<longrightarrow> classify_sentiment c = ''negative'') \<and>
   (- 0.05 < c \<and> c < 0.05 \<longrightarrow> classify_sentiment c = ''neutral'') \<and>
   classify_sentiment 0.05 = ''positive'' \<and>
   classify_sentiment (- 0.05) = ''negative'' \<and>
   classify_sentiment 0 = ''neutral''"
  by (simp add: classify_sentiment_def)

theorem classify_sentiment_thresholds_witness:
  "classify_sentiment 0.3 = ''positive'' \<and> classify_sentiment (- 0.7) = ''negative'' \<and>
   classify_sentiment 0.01 = ''neutral''"
  using classify_sentiment_thresholds [of "0.3"] classify_sentiment_thresholds [of "- 0.7"]
    classify_sentiment_thresholds [of "0.01"]
  by simp


subsection \<open>Sample documents\<close>

lemma sample_body: "body_text sample_doc = str ''The cats and the Dogs sat. Cats ran fast.''"
  by (simp add: sample_doc_def init_def extract_body_def text_defs)

lemma thirds_body: "body_text thirds_doc = str ''Cats cats dogs''"
  by (simp add: thirds_doc_def init_def extract_body_def text_defs)

lemma sample_lower:
  "lower sample_env (str ''The cats and the Dogs sat. Cats ran fast.'') = str ''the cats and the dogs sat. cats ran fast.''"
  by (simp add: lower_def sample_env_def str_def Let_def)

lemma sample_words:
  "word_tokenize sample_env (str ''the cats and the dogs sat. cats ran fast.'') =
    [str ''the'', str ''cats'', str ''and'', str ''the'', str ''dogs'', str ''sat.'', str ''cats'', str ''ran'', str ''fast.'']"
  by (simp add: sample_env_def str_def isspace_def)

lemma sample_preprocess:
  "preprocess sample_env sample_doc = [str ''cat'', str ''dog'', str ''cat'', str ''ran'']"
  by (simp add: preprocess_def sample_body sample_lower sample_words)
     (simp add: sample_env_def isalpha_def str_def)

lemma sample_sentences:
  "sent_tokenize sample_env (body_text sample_doc) = [str ''The cats and the Dogs sat'', str '' Cats ran fast'']"
  by (simp add: sample_body) (simp add: sample_env_def str_def)

lemma thirds_preprocess:
  "preprocess sample_env thirds_doc = [str ''cat'', str ''cat'', str ''dog'']"
  by (simp add: preprocess_def thirds_body) (simp add: sample_env_def lower_def isalpha_def str_def isspace_def Let_def)

lemma thirds_words:
  "filter (isalpha sample_env) (word_tokenize sample_env (lower sample_env (body_text thirds_doc)))
     = [str ''cats'', str ''cats'', str ''dogs'']"
  by (simp add: thirds_body) (simp add: sample_env_def lower_def isalpha_def str_def isspace_def Let_def)

lemma thirds_sentences:
  "sent_tokenize sample_env (body_text thirds_doc) = [str ''Cats cats dogs'']"
  by (simp add: thirds_body) (simp add: sample_env_def str_def)

lemma sample_round_thirds:
  "py_round sample_env (2 / 3) 4 = 6005099743135819 / 9007199254740992"
  "py_round sample_env 3 2 = 3"
  by (simp_all add: py_round_def binary64_def sample_env_def sample_nearest64_def
      round_half_even_def Let_def)

lemma thirds_style:
  "analyze_style sample_env thirds_doc [str ''cat'', str ''cat'', str ''dog''] =
     Inr \<lparr>type_token_ratio = 6005099743135819 / 9007199254740992,
          unique_words = 2, total_words = 3,
          unique_words_all = 2, total_words_all = 3, avg_word_length = 3,
          avg_sentence_length = 3, total_sentences = 1,
          vocabulary_richness = 6005099743135819 / 9007199254740992\<rparr>"
  unfolding analyze_style_def Let_def thirds_words thirds_sentences
  by (simp add: str_def exn_bind_def py_div_def np_mean_def sample_round_thirds)

lemma sample_components:
  "sample_lda_fit 1 m = Inr [[1 / 2, 5 / 2, 3 / 2]]"
  "sample_lda_fit 2 m = Inr [[1 / 2, 5 / 2, 3 / 2], [3 / 2, 5 / 2, 3 / 2]]"
  by (simp_all add: sample_lda_fit_def eval_nat_numeral)

lemma sample_fit:
  "sentences \<noteq> [] \<Longrightarrow>
   fit_transform sample_env sentences = Inr (sample_vocabulary, map (\<lambda>s. [1, 0, 2]) sentences)"
  by (simp add: sample_env_def sample_fit_transform_def)

lemma sample_argsort:
  "argsort sample_env [1 / 2, 5 / 2, 3 / 2] = [0, 2, 1]"
  "argsort sample_env [3 / 2, 5 / 2, 3 / 2] = [0, 2, 1]"
  by (simp_all add: sample_env_def eval_nat_numeral)

lemma sample_lda: "lda_fit sample_env = sample_lda_fit"
  by (simp add: sample_env_def)

lemma sample_topics_all:
  "extract_topics sample_env sample_doc 1 0 =
    ([\<lparr>topic_id = 1, words = [str ''dog'', str ''sun'', str ''cat''], weight = 5 / 2\<rparr>], [])"
  by (simp add: extract_topics_def fit_topics_def sample_fit sample_lda sample_components exn_bind_def sample_sentences)
    (simp add: enumerate_eq_zip topic_entry_def top_indices_def sample_argsort sample_vocabulary_def
       py_slice_from_def py_index_def Let_def exn_bind_def)

lemma sample_topics_two:
  "extract_topics sample_env sample_doc 2 2 =
    ([\<lparr>topic_id = 1, words = [str ''dog'', str ''sun''], weight = 5 / 2\<rparr>,
      \<lparr>topic_id = 2, words = [str ''dog'', str ''sun''], weight = 5 / 2\<rparr>], [])"
  by (simp add: extract_topics_def fit_topics_def sample_fit sample_lda sample_components exn_bind_def sample_sentences)
    (simp add: enumerate_eq_zip topic_entry_def top_indices_def sample_argsort sample_vocabulary_def
       py_slice_from_def py_index_def Let_def exn_bind_def eval_nat_numeral)

lemma sample_sorts:
  "sorts (argsort sample_env [1 / 2, 5 / 2, 3 / 2]) [1 / 2, 5 / 2, 3 / 2]"
  "sorts (argsort sample_env [3 / 2, 5 / 2, 3 / 2]) [3 / 2, 5 / 2, 3 / 2]"
  by (auto simp: sample_argsort sorts_def)

lemma unmarked_body: "body_text unmarked_doc = []"
  by (simp add: unmarked_doc_def init_def extract_body_def text_defs)

lemma sample_tokenizers: "word_tokenize sample_env [] = []" "sent_tokenize sample_env [] = []"
  by (simp_all add: sample_env_def)

subsection \<open>Shared facts\<close>

lemma traverse_total:
  "(\<And>x. x \<in> set xs \<Longrightarrow> f x = Inr (g x)) \<Longrightarrow> traverse f xs = Inr (map g xs)"
  by (induction xs) (simp_all add: exn_bind_def)

lemma py_round_zero: "py_round env 0 n = 0"
  by (simp add: py_round_def binary64_def round_half_even_def)

lemma lower_empty: "lower env [] = []"
  by (simp add: lower_def)

lemma preprocess_empty:
  "body_text self = [] \<Longrightarrow> word_tokenize env [] = [] \<Longrightarrow> preprocess env self = []"
  by (simp add: preprocess_def lower_empty)

lemma init_unmarked:
  "find_first start_marker raw = None \<or> find_first end_marker raw = None \<Longrightarrow>
   body_text (init stem raw) = []"
  by (simp add: init_def extract_body_absent)

subsection \<open>Preprocessing\<close>

lemma keep_iff_retained:
  "isalpha env t \<and> t \<notin> stop_words env \<and> length t > 2 \<longleftrightarrow> retained env t"
  by (auto simp: isalpha_def retained_def list_all_iff)

lemma comprehension_map_filter:
  "[f x. x \<leftarrow> xs, p x] = map f (filter p xs)"
  by (induction xs) auto

lemma count_list_filter:
  "count_list (filter p xs) x = (if p x then count_list xs x else 0)"
  by (induction xs) auto

text \<open>
  C3. The output of the preprocessor is the tokens of the lower-cased body that are
  retained, each lemmatized: a token is retained if and only if all its characters are
  alphabetic, it is no stop word and it is longer than 2. The retained tokens are a
  subsequence of the tokens (their order is kept) and every retained token occurs as
  often as among the tokens (duplicates are kept); the output has one lemma for each.
\<close>

theorem preprocess_filters_and_lemmatizes:
  "preprocess env self = preprocess_spec env (body_text self) \<and>
   subseq (filter (retained env) (word_tokenize env (lower env (body_text self))))
          (word_tokenize env (lower env (body_text self))) \<and>
   length (preprocess env self) =
     length (filter (retained env) (word_tokenize env (lower env (body_text self)))) \<and>
   (\<forall>t. retained env t \<longrightarrow>
      count_list (filter (retained env) (word_tokenize env (lower env (body_text self)))) t =
      count_list (word_tokenize env (lower env (body_text self))) t) \<and>
   (\<forall>t. t \<in> set (filter (retained env) (word_tokenize env (lower env (body_text self)))) \<longleftrightarrow>
      t \<in> set (word_tokenize env (lower env (body_text self))) \<and>
      (\<forall>c \<in> set t. alpha env c) \<and> t \<notin> stop_words env \<and> length t > 2)"
proof -
  have "preprocess env self = preprocess_spec env (body_text self)"
    by (simp add: preprocess_def preprocess_spec_def Let_def comprehension_map_filter
        keep_iff_retained)
  then show ?thesis
    by (auto simp: preprocess_spec_def count_list_filter retained_def)
qed

theorem preprocess_filters_and_lemmatizes_witness:
  "preprocess sample_env sample_doc = [str ''cat'', str ''dog'', str ''cat'', str ''ran''] \<and>
   preprocess_spec sample_env (body_text sample_doc) =
     [str ''cat'', str ''dog'', str ''cat'', str ''ran'']"
  using preprocess_filters_and_lemmatizes [of sample_env sample_doc] sample_preprocess
  by simp

subsection \<open>Frequencies\<close>

lemma keys_counter_add:
  "map fst (counter_add kvs w) = (if w \<in> set (map fst kvs) then map fst kvs else map fst kvs @ [w])"
  by (induction kvs w rule: counter_add.induct) auto

lemma map_of_counter_add:
  "map_of (counter_add kvs w) = (map_of kvs)(w \<mapsto> Suc (cnt kvs w))"
  by (induction kvs w rule: counter_add.induct) (auto simp: cnt_def fun_eq_iff)

lemma sum_counter_add:
  "sum_list (map snd (counter_add kvs w)) = Suc (sum_list (map snd kvs))"
  by (induction kvs w rule: counter_add.induct) auto

lemma Counter_snoc: "Counter (ts @ [w]) = counter_add (Counter ts) w"
  by (simp add: Counter_def)

lemma set_keys_counter_add: "fst ` set (counter_add kvs w) = insert w (fst ` set kvs)"
  by (induction kvs w rule: counter_add.induct) auto

lemma keys_Counter: "fst ` set (Counter ts) = set ts"
  by (induction ts rule: rev_induct) (auto simp: Counter_snoc set_keys_counter_add Counter_def)

lemma distinct_Counter: "distinct (map fst (Counter ts))"
proof (induction ts rule: rev_induct)
  case Nil
  then show ?case by (simp add: Counter_def)
next
  case (snoc w ts)
  then show ?case by (simp add: Counter_snoc keys_counter_add keys_Counter)
qed

lemma map_of_Counter:
  "map_of (Counter ts) w = (if w \<in> set ts then Some (count_list ts w) else None)"
proof (induction ts rule: rev_induct)
  case Nil
  then show ?case by (simp add: Counter_def)
next
  case (snoc x ts)
  then show ?case by (auto simp: Counter_snoc map_of_counter_add cnt_def)
qed

lemma sum_Counter: "sum_list (map snd (Counter ts)) = length ts"
  by (induction ts rule: rev_induct) (simp_all add: Counter_snoc sum_counter_add Counter_def)

lemma length_Counter: "length (Counter ts) = card (set ts)"
proof -
  have "length (Counter ts) = length (map fst (Counter ts))" by simp
  also have "\<dots> = card (set (map fst (Counter ts)))"
    using distinct_Counter [of ts] by (simp only: distinct_card)
  finally show ?thesis by (simp add: keys_Counter)
qed

lemma first_seen_snoc:
  "first_seen (ts @ [w]) x = (if x \<in> set ts then first_seen ts x else length ts + (if x = w then 0 else 1))"
  by (induction ts) (auto simp: first_seen_def)

lemma first_seen_less: "x \<in> set ts \<Longrightarrow> first_seen ts x < length ts"
  unfolding first_seen_def by (induction ts) auto

lemma Counter_first_seen:
  "sorted_wrt (\<lambda>a b. first_seen ts a < first_seen ts b) (map fst (Counter ts))"
proof (induction ts rule: rev_induct)
  case Nil
  then show ?case by (simp add: Counter_def)
next
  case (snoc w ts)
  have same: "sorted_wrt (\<lambda>a b. first_seen (ts @ [w]) a < first_seen (ts @ [w]) b) (map fst (Counter ts))"
  proof (rule sorted_wrt_mono_rel [OF _ snoc])
    fix x y
    assume "x \<in> set (map fst (Counter ts))" "y \<in> set (map fst (Counter ts))"
      and "first_seen ts x < first_seen ts y"
    then show "first_seen (ts @ [w]) x < first_seen (ts @ [w]) y"
      by (simp add: keys_Counter first_seen_snoc)
  qed
  show ?case
  proof (cases "w \<in> set ts")
    case True
    with same show ?thesis by (simp add: Counter_snoc keys_counter_add keys_Counter)
  next
    case False
    have "\<forall>x \<in> set (map fst (Counter ts)). first_seen (ts @ [w]) x < first_seen (ts @ [w]) w"
      using False by (simp add: keys_Counter first_seen_snoc first_seen_less)
    with same False show ?thesis
      by (simp add: Counter_snoc keys_counter_add keys_Counter sorted_wrt_append)
  qed
qed


lemma insort_key_ties:
  "sorted_wrt (\<lambda>a b. f a = f b \<longrightarrow> R a b) ys \<Longrightarrow> \<forall>y \<in> set ys. R x y \<Longrightarrow>
   sorted_wrt (\<lambda>a b. f a = f b \<longrightarrow> R a b) (insort_key f x ys)"
  by (induction ys) (auto simp: set_insort_key)

lemma sort_key_ties:
  "sorted_wrt R xs \<Longrightarrow> sorted_wrt (\<lambda>a b. f a = f b \<longrightarrow> R a b) (sort_key f xs)"
proof (induction xs)
  case Nil
  then show ?case by simp
next
  case (Cons x xs)
  then have "sorted_wrt (\<lambda>a b. f a = f b \<longrightarrow> R a b) (sort_key f xs)" by simp
  moreover have "\<forall>y \<in> set (sort_key f xs). R x y" using Cons.prems by simp
  ultimately show ?case by (simp add: insort_key_ties)
qed

lemma sorted_wrt_map_key:
  "sorted (map f xs) \<longleftrightarrow> sorted_wrt (\<lambda>a b. f a \<le> f b) xs"
  by (simp add: sorted_wrt_map)


lemma most_common_subset: "set (most_common n items) \<subseteq> set items"
  by (auto simp: most_common_def dest: in_set_takeD)

lemma build_bag_of_words_eq:
  "build_bag_of_words tokens =
     Inr (map (entry_of (length tokens)) (most_common 50 (Counter tokens)), Counter tokens)"
proof (cases "tokens = []")
  case True
  then show ?thesis
    by (simp add: build_bag_of_words_def Counter_def most_common_def exn_bind_def)
next
  case False
  have "traverse
          (\<lambda>(w, c). exn_bind (if length tokens > 0 then py_div (real c) (real (length tokens)) else Inr 0)
                     (\<lambda>f. Inr \<lparr>word = w, count = c, frequency = f\<rparr>))
          (most_common 50 (Counter tokens))
        = Inr (map (entry_of (length tokens)) (most_common 50 (Counter tokens)))"
    using False by (intro traverse_total) (auto simp: entry_of_def exn_bind_def py_div_def)
  then show ?thesis
    by (simp add: build_bag_of_words_def Let_def exn_bind_def)
qed


lemma most_common_sorted: "sorted_wrt (\<lambda>a b. snd b \<le> snd a) (most_common n items)"
proof -
  have "sorted (map (\<lambda>(w, c). - int c) (sort_key (\<lambda>(w, c). - int c) items))"
    by (rule sorted_sort_key)
  then have "sorted_wrt (\<lambda>a b. (case a of (w, c) \<Rightarrow> - int c) \<le> (case b of (w, c) \<Rightarrow> - int c))
               (sort_key (\<lambda>(w, c). - int c) items)"
    by (simp add: sorted_wrt_map)
  then have "sorted_wrt (\<lambda>a b. snd b \<le> snd a) (sort_key (\<lambda>(w, c). - int c) items)"
    by (rule sorted_wrt_mono_rel [rotated]) (auto split: prod.splits)
  then show ?thesis
    unfolding most_common_def by (rule sorted_wrt_take)
qed

lemma most_common_ties:
  assumes "sorted_wrt R items"
  shows "sorted_wrt (\<lambda>a b. snd a = snd b \<longrightarrow> R a b) (most_common n items)"
proof -
  have "sorted_wrt (\<lambda>a b. (case a of (w, c) \<Rightarrow> - int c) = (case b of (w, c) \<Rightarrow> - int c) \<longrightarrow> R a b)
          (sort_key (\<lambda>(w, c). - int c) items)"
    using assms by (rule sort_key_ties)
  then have "sorted_wrt (\<lambda>a b. snd a = snd b \<longrightarrow> R a b) (sort_key (\<lambda>(w, c). - int c) items)"
    by (rule sorted_wrt_mono_rel [rotated]) (auto split: prod.splits)
  then show ?thesis
    unfolding most_common_def by (rule sorted_wrt_take)
qed

lemma most_common_rest:
  assumes "x \<in> set items" "x \<notin> set (most_common n items)" "y \<in> set (most_common n items)"
  shows "snd x \<le> snd y"
proof -
  let ?s = "sort_key (\<lambda>(w, c). - int c) items"
  have "sorted_wrt (\<lambda>a b. snd b \<le> snd a) (most_common (length items) items)"
    by (rule most_common_sorted)
  then have "sorted_wrt (\<lambda>a b. snd b \<le> snd a) (take n ?s @ drop n ?s)"
    by (simp add: most_common_def)
  then have all: "\<forall>a \<in> set (take n ?s). \<forall>b \<in> set (drop n ?s). snd b \<le> snd a"
    by (simp only: sorted_wrt_append) simp
  have "set ?s = set (take n ?s) \<union> set (drop n ?s)"
    by (metis append_take_drop_id set_append)
  with assms(1, 2) have "x \<in> set (drop n ?s)" by (auto simp: most_common_def)
  with all assms(3) show ?thesis by (auto simp: most_common_def)
qed

lemma length_most_common: "length (most_common n items) = min n (length items)"
  by (simp add: most_common_def min.commute)

lemma Counter_entry:
  assumes "(w, c) \<in> set (Counter tokens)"
  shows "w \<in> set tokens \<and> c = count_list tokens w"
proof -
  from assms have "map_of (Counter tokens) w = Some c"
    using distinct_Counter [of tokens] by simp
  then show ?thesis by (simp add: map_of_Counter split: if_splits)
qed

lemma Counter_has:
  assumes "w \<in> set tokens"
  shows "(w, count_list tokens w) \<in> set (Counter tokens)"
  using assms map_of_Counter [of tokens w] by (auto dest: map_of_SomeD)

text \<open>
  C4. For every token sequence, \<open>build_bag_of_words\<close> returns a list \<open>top\<close> and a
  dictionary \<open>freqs\<close>: the keys of \<open>freqs\<close> are distinct, \<open>freqs\<close> maps exactly the
  tokens, each to the number of its occurrences, and its values sum to the length of
  the sequence; \<open>top\<close> has at most 50 entries (50, or all the distinct tokens when they
  are fewer), in descending order of count, entries of equal count in the order in which
  their words are first met; every entry holds a token, its number of occurrences and
  that number divided by the length of the sequence; a token left out of \<open>top\<close> occurs
  no more often than any entry of \<open>top\<close>; for the empty sequence both are empty.
\<close>

theorem build_bag_of_words_frequencies:
  "\<exists>top freqs. build_bag_of_words tokens = Inr (top, freqs) \<and>
     distinct (map fst freqs) \<and>
     (\<forall>w. map_of freqs w = (if w \<in> set tokens then Some (count_list tokens w) else None)) \<and>
     sum_list (map snd freqs) = length tokens \<and>
     length top \<le> 50 \<and> length top = min 50 (card (set tokens)) \<and>
     sorted_wrt (\<lambda>a b. count b \<le> count a) top \<and>
     sorted_wrt (\<lambda>a b. count a = count b \<longrightarrow>
        first_seen tokens (word a) < first_seen tokens (word b)) top \<and>
     (\<forall>e \<in> set top. word e \<in> set tokens \<and> count e = count_list tokens (word e) \<and>
        frequency e = real (count e) / real (length tokens)) \<and>
     (\<forall>w \<in> set tokens. w \<notin> word ` set top \<longrightarrow>
        (\<forall>e \<in> set top. count_list tokens w \<le> count e)) \<and>
     (tokens = [] \<longrightarrow> top = [] \<and> freqs = [])"
proof -
  let ?n = "length tokens"
  let ?mc = "most_common 50 (Counter tokens)"
  let ?top = "map (entry_of ?n) ?mc"
  have word_entry [simp]: "\<And>p. word (entry_of ?n p) = fst p"
    and count_entry [simp]: "\<And>p. count (entry_of ?n p) = snd p"
    and freq_entry [simp]: "\<And>p. frequency (entry_of ?n p) = real (snd p) / real ?n"
    by (simp_all add: entry_of_def split: prod.splits)
  have run: "build_bag_of_words tokens = Inr (?top, Counter tokens)"
    by (rule build_bag_of_words_eq)
  have len: "length ?top = min 50 (card (set tokens))"
    by (simp add: length_most_common length_Counter)
  have desc: "sorted_wrt (\<lambda>a b. count b \<le> count a) ?top"
    using most_common_sorted [of 50 "Counter tokens"] by (simp add: sorted_wrt_map)
  have "sorted_wrt (\<lambda>a b. first_seen tokens (fst a) < first_seen tokens (fst b)) (Counter tokens)"
    using Counter_first_seen [of tokens] by (simp add: sorted_wrt_map)
  then have ties: "sorted_wrt (\<lambda>a b. count a = count b \<longrightarrow>
        first_seen tokens (word a) < first_seen tokens (word b)) ?top"
    using most_common_ties [of _ "Counter tokens" 50] by (simp add: sorted_wrt_map)
  have entries: "\<forall>e \<in> set ?top. word e \<in> set tokens \<and> count e = count_list tokens (word e) \<and>
        frequency e = real (count e) / real ?n"
  proof
    fix e assume "e \<in> set ?top"
    then obtain p where p: "p \<in> set ?mc" "e = entry_of ?n p" by auto
    then have "(fst p, snd p) \<in> set (Counter tokens)"
      using most_common_subset [of 50 "Counter tokens"] by auto
    from Counter_entry [OF this] p(2)
    show "word e \<in> set tokens \<and> count e = count_list tokens (word e) \<and>
        frequency e = real (count e) / real ?n" by simp
  qed
  have rest: "\<forall>w \<in> set tokens. w \<notin> word ` set ?top \<longrightarrow>
        (\<forall>e \<in> set ?top. count_list tokens w \<le> count e)"
  proof (intro ballI impI)
    fix w e assume w: "w \<in> set tokens" "w \<notin> word ` set ?top" and e: "e \<in> set ?top"
    from e obtain p where p: "p \<in> set ?mc" "e = entry_of ?n p" by auto
    have in_items: "(w, count_list tokens w) \<in> set (Counter tokens)"
      by (rule Counter_has [OF w(1)])
    have "(w, count_list tokens w) \<notin> set ?mc"
    proof
      assume "(w, count_list tokens w) \<in> set ?mc"
      then have "word (entry_of ?n (w, count_list tokens w)) \<in> word ` set ?top" by force
      with w(2) show False by simp
    qed
    from most_common_rest [OF in_items this p(1)] p(2)
    show "count_list tokens w \<le> count e" by simp
  qed
  have empty: "tokens = [] \<longrightarrow> ?top = [] \<and> Counter tokens = []"
    by (simp add: Counter_def most_common_def)
  have keys: "distinct (map fst (Counter tokens))"
    by (rule distinct_Counter)
  have counts: "\<forall>w. map_of (Counter tokens) w =
      (if w \<in> set tokens then Some (count_list tokens w) else None)"
    by (simp add: map_of_Counter)
  have total: "sum_list (map snd (Counter tokens)) = length tokens"
    by (rule sum_Counter)
  have atmost: "length ?top \<le> 50"
    using len by simp
  show ?thesis
    by (rule exI [of _ ?top], rule exI [of _ "Counter tokens"]) (intro conjI; fact)
qed
lemma sample_bag:
  "build_bag_of_words sample_tokens =
     Inr ([\<lparr>word = str ''bee'', count = 2, frequency = 1 / 3\<rparr>,
           \<lparr>word = str ''ant'', count = 2, frequency = 1 / 3\<rparr>,
           \<lparr>word = str ''cow'', count = 1, frequency = 1 / 6\<rparr>,
           \<lparr>word = str ''doe'', count = 1, frequency = 1 / 6\<rparr>],
          [(str ''bee'', 2), (str ''ant'', 2), (str ''cow'', 1), (str ''doe'', 1)])"
  by (simp add: build_bag_of_words_def sample_tokens_def Counter_def most_common_def
      exn_bind_def py_div_def str_def)

theorem build_bag_of_words_frequencies_witness:
  "build_bag_of_words sample_tokens =
     Inr ([\<lparr>word = str ''bee'', count = 2, frequency = 1 / 3\<rparr>,
           \<lparr>word = str ''ant'', count = 2, frequency = 1 / 3\<rparr>,
           \<lparr>word = str ''cow'', count = 1, frequency = 1 / 6\<rparr>,
           \<lparr>word = str ''doe'', count = 1, frequency = 1 / 6\<rparr>],
          [(str ''bee'', 2), (str ''ant'', 2), (str ''cow'', 1), (str ''doe'', 1)]) \<and>
   sum_list (map snd [(str ''bee'', 2 :: nat), (str ''ant'', 2), (str ''cow'', 1), (str ''doe'', 1)])
     = length sample_tokens"
proof -
  from build_bag_of_words_frequencies [of sample_tokens]
  obtain top freqs where run: "build_bag_of_words sample_tokens = Inr (top, freqs)"
    and total: "sum_list (map snd freqs) = length sample_tokens"
    by blast
  from run have "freqs = [(str ''bee'', 2), (str ''ant'', 2), (str ''cow'', 1), (str ''doe'', 1)]"
    by (auto simp: sample_bag)
  with total show ?thesis by (simp add: sample_bag)
qed

subsection \<open>Style\<close>

lemma round_half_even_cases:
  "round_half_even x = \<lfloor>x\<rfloor> \<or> (round_half_even x = \<lfloor>x\<rfloor> + 1 \<and> 1 / 2 \<le> x - of_int \<lfloor>x\<rfloor>)"
  by (auto simp: round_half_even_def Let_def)

lemma round_half_even_nonneg: "0 \<le> x \<Longrightarrow> 0 \<le> round_half_even x"
  using round_half_even_cases [of x] by (auto simp: zero_le_floor)

lemma round_half_even_le: 
  assumes "x \<le> of_int m" shows "round_half_even x \<le> m"
proof -
  have f: "\<lfloor>x\<rfloor> \<le> m" using assms by (simp add: floor_le_iff)
  from round_half_even_cases [of x] show ?thesis
  proof
    assume "round_half_even x = \<lfloor>x\<rfloor>" with f show ?thesis by simp
  next
    assume a: "round_half_even x = \<lfloor>x\<rfloor> + 1 \<and> 1 / 2 \<le> x - of_int \<lfloor>x\<rfloor>"
    then have "of_int \<lfloor>x\<rfloor> < x" by linarith
    with assms have "of_int \<lfloor>x\<rfloor> < (of_int m :: real)" by linarith
    then have "\<lfloor>x\<rfloor> < m" by simp
    with a show ?thesis by simp
  qed
qed

text \<open>Float rounding keeps a number of the unit interval in it: 0 and 1 are binary64
  numbers, and rounding to the nearest is monotone.\<close>

lemma py_round_unit:
  assumes keeps: "\<forall>x. 0 \<le> x \<and> x \<le> 1 \<longrightarrow> 0 \<le> binary64 env x \<and> binary64 env x \<le> 1"
    and "0 \<le> x" "x \<le> 1"
  shows "0 \<le> py_round env x n \<and> py_round env x n \<le> 1"
proof -
  let ?y = "binary64 env x"
  from keeps assms(2, 3) have y: "0 \<le> ?y" "?y \<le> 1" by auto
  have "0 \<le> ?y * 10 ^ n" using y by simp
  then have lo: "0 \<le> round_half_even (?y * 10 ^ n)" by (rule round_half_even_nonneg)
  have "?y * 10 ^ n \<le> of_int (10 ^ n)" using y by (simp add: mult_left_le_one_le)
  then have hi: "round_half_even (?y * 10 ^ n) \<le> 10 ^ n" by (rule round_half_even_le)
  from hi have "(of_int (round_half_even (?y * 10 ^ n)) :: real) \<le> of_int (10 ^ n)"
    by (simp only: of_int_le_iff)
  with lo have "0 \<le> of_int (round_half_even (?y * 10 ^ n)) / (10 ^ n :: real) \<and>
      of_int (round_half_even (?y * 10 ^ n)) / (10 ^ n :: real) \<le> 1"
    by (simp add: divide_le_eq_1)
  with keeps show ?thesis unfolding py_round_def by blast
qed

text \<open>
  The quotients 1/160 and 43/40 lie at a decimal tie; their floats do not, and decide
  the digit: \<open>round(1/160, 4)\<close> is the float of 0.0063 and \<open>round(43/40, 2)\<close> that of
  1.07.
\<close>

lemma py_round_at_decimal_ties:
  assumes "nearest64 env (1 / 160) = 3602879701896397 / 576460752303423488"
    and "nearest64 env (43 / 40) = 4841369599423283 / 4503599627370496"
  shows "py_round env (1 / 160) 4 = binary64 env (63 / 10000)"
    and "py_round env (43 / 40) 2 = binary64 env (107 / 100)"
proof -
  have a: "binary64 env (1 / 160) = 3602879701896397 / 576460752303423488"
    using assms(1) by (simp add: binary64_def)
  have ra: "round_half_even (3602879701896397 / 576460752303423488 * 10 ^ 4) = 63"
    by (simp add: round_half_even_def Let_def)
  show "py_round env (1 / 160) 4 = binary64 env (63 / 10000)"
    unfolding py_round_def a ra by simp
  have b: "binary64 env (43 / 40) = 4841369599423283 / 4503599627370496"
    using assms(2) by (simp add: binary64_def)
  have rb: "round_half_even (4841369599423283 / 4503599627370496 * 10 ^ 2) = 107"
    by (simp add: round_half_even_def Let_def)
  show "py_round env (43 / 40) 2 = binary64 env (107 / 100)"
    unfolding py_round_def b rb by simp
qed

lemma card_set_le_length: "real (card (set xs)) \<le> real (length xs)"
  by (simp add: card_length)

lemma ratio_unit:
  "0 \<le> (if length xs = 0 then 0 else real (card (set xs)) / real (length xs)) \<and>
   (if length xs = 0 then 0 else real (card (set xs)) / real (length xs)) \<le> 1"
  using card_length [of xs] by (auto simp: divide_le_eq_1)

lemma analyze_style_eq: "analyze_style env self tokens = Inr (style_of env self tokens)"
  by (auto simp: analyze_style_def style_of_def Let_def exn_bind_def py_div_def np_mean_def
      filter_empty_conv)

lemma style_of_ttr:
  "type_token_ratio (style_of env self tokens) =
     py_round env (if length tokens = 0 then 0
               else real (card (set tokens)) / real (length tokens)) 4"
  by (simp add: style_of_def Let_def)

lemma style_of_richness:
  "vocabulary_richness (style_of env self tokens) =
     py_round env (if length (filter (isalpha env) (word_tokenize env (lower env (body_text self)))) = 0
               then 0
               else real (card (set (filter (isalpha env) (word_tokenize env (lower env (body_text self)))))) /
                    real (length (filter (isalpha env) (word_tokenize env (lower env (body_text self)))))) 4"
  by (simp add: style_of_def Let_def)

lemma sample_keeps_unit:
  "\<forall>x. 0 \<le> x \<and> x \<le> 1 \<longrightarrow> 0 \<le> binary64 sample_env x \<and> binary64 sample_env x \<le> 1"
  by (simp add: binary64_def sample_env_def sample_nearest64_def)

text \<open>
  C7, as stated: the type-token ratio equals the unique filtered tokens divided by the
  total filtered tokens. For the tokens cat, cat, dog the quotient is 2/3 and the field
  is the float 0.6667, which is 6005099743135819 / 2^53: \<open>analyze_style\<close> rounds both
  ratios to 4 decimal places.
\<close>

theorem type_token_ratio_is_rounded:
  "analyze_style sample_env thirds_doc [str ''cat'', str ''cat'', str ''dog''] =
     Inr \<lparr>type_token_ratio = 6005099743135819 / 9007199254740992,
          unique_words = 2, total_words = 3,
          unique_words_all = 2, total_words_all = 3, avg_word_length = 3,
          avg_sentence_length = 3, total_sentences = 1,
          vocabulary_richness = 6005099743135819 / 9007199254740992\<rparr> \<and>
   preprocess sample_env thirds_doc = [str ''cat'', str ''cat'', str ''dog''] \<and>
   (6005099743135819 / 9007199254740992 :: real) \<noteq> 2 / 3"
  by (simp add: thirds_style thirds_preprocess)

text \<open>
  C7, amended. \<open>analyze_style\<close> always returns a record; its type-token ratio is
  \<open>round\<close> to 4 decimal places of the unique filtered tokens divided by the total
  filtered tokens (of 0 when the total is 0); its vocabulary richness is the same for
  the unfiltered alphabetic tokens; both lie in [0, 1], float rounding keeping the unit
  interval; the ratio is 0 for no tokens, and for an empty body, which a tokenizer that
  finds no token in the empty text turns into no tokens, the richness is 0.
\<close>

theorem analyze_style_ratios:
  "\<exists>r. analyze_style env self tokens = Inr r \<and>
     type_token_ratio r =
       py_round env (if length tokens = 0 then 0
                     else real (card (set tokens)) / real (length tokens)) 4 \<and>
     vocabulary_richness r =
       py_round env
         (if length (filter (isalpha env) (word_tokenize env (lower env (body_text self)))) = 0
          then 0
          else real (card (set (filter (isalpha env) (word_tokenize env (lower env (body_text self)))))) /
               real (length (filter (isalpha env) (word_tokenize env (lower env (body_text self)))))) 4 \<and>
     ((\<forall>x. 0 \<le> x \<and> x \<le> 1 \<longrightarrow> 0 \<le> binary64 env x \<and> binary64 env x \<le> 1) \<longrightarrow>
        0 \<le> type_token_ratio r \<and> type_token_ratio r \<le> 1 \<and>
        0 \<le> vocabulary_richness r \<and> vocabulary_richness r \<le> 1) \<and>
     (tokens = [] \<longrightarrow> type_token_ratio r = 0) \<and>
     (body_text self = [] \<and> word_tokenize env [] = [] \<longrightarrow>
        preprocess env self = [] \<and> vocabulary_richness r = 0)"
proof -
  let ?r = "style_of env self tokens"
  let ?all = "filter (isalpha env) (word_tokenize env (lower env (body_text self)))"
  have run: "analyze_style env self tokens = Inr ?r" by (rule analyze_style_eq)
  have ttr: "type_token_ratio ?r =
       py_round env (if length tokens = 0 then 0
                     else real (card (set tokens)) / real (length tokens)) 4"
    by (rule style_of_ttr)
  have vr: "vocabulary_richness ?r =
       py_round env (if length ?all = 0 then 0 else real (card (set ?all)) / real (length ?all)) 4"
    by (rule style_of_richness)
  have unit: "(\<forall>x. 0 \<le> x \<and> x \<le> 1 \<longrightarrow> 0 \<le> binary64 env x \<and> binary64 env x \<le> 1) \<longrightarrow>
        0 \<le> type_token_ratio ?r \<and> type_token_ratio ?r \<le> 1 \<and>
        0 \<le> vocabulary_richness ?r \<and> vocabulary_richness ?r \<le> 1"
  proof
    assume keeps: "\<forall>x. 0 \<le> x \<and> x \<le> 1 \<longrightarrow> 0 \<le> binary64 env x \<and> binary64 env x \<le> 1"
    note t = py_round_unit [OF keeps ratio_unit [of tokens, THEN conjunct1]
        ratio_unit [of tokens, THEN conjunct2], of 4]
    note v = py_round_unit [OF keeps ratio_unit [of ?all, THEN conjunct1]
        ratio_unit [of ?all, THEN conjunct2], of 4]
    from t v show "0 \<le> type_token_ratio ?r \<and> type_token_ratio ?r \<le> 1 \<and>
        0 \<le> vocabulary_richness ?r \<and> vocabulary_richness ?r \<le> 1"
      unfolding ttr vr by blast
  qed
  have t_zero: "tokens = [] \<longrightarrow> type_token_ratio ?r = 0"
    by (simp add: style_of_ttr py_round_zero)
  have v_zero: "body_text self = [] \<and> word_tokenize env [] = [] \<longrightarrow>
        preprocess env self = [] \<and> vocabulary_richness ?r = 0"
    by (simp add: style_of_richness py_round_zero lower_empty preprocess_empty)
  show ?thesis
    by (rule exI [of _ ?r]) (intro conjI; fact)
qed

theorem analyze_style_ratios_witness:
  "analyze_style sample_env thirds_doc [str ''cat'', str ''cat'', str ''dog''] =
     Inr \<lparr>type_token_ratio = 6005099743135819 / 9007199254740992,
          unique_words = 2, total_words = 3,
          unique_words_all = 2, total_words_all = 3, avg_word_length = 3,
          avg_sentence_length = 3, total_sentences = 1,
          vocabulary_richness = 6005099743135819 / 9007199254740992\<rparr> \<and>
   (0 :: real) \<le> 6005099743135819 / 9007199254740992 \<and>
   (6005099743135819 / 9007199254740992 :: real) \<le> 1 \<and>
   analyze_style sample_env unmarked_doc [] = Inr (style_of sample_env unmarked_doc []) \<and>
   type_token_ratio (style_of sample_env unmarked_doc []) = 0 \<and>
   vocabulary_richness (style_of sample_env unmarked_doc []) = 0"
proof -
  let ?toks = "[str ''cat'', str ''cat'', str ''dog'']"
  from analyze_style_ratios [of sample_env thirds_doc ?toks] sample_keeps_unit
  obtain r where r: "analyze_style sample_env thirds_doc ?toks = Inr r"
    and unit: "0 \<le> type_token_ratio r" "type_token_ratio r \<le> 1"
    by blast
  from r have "type_token_ratio r = 6005099743135819 / 9007199254740992"
    by (auto simp: thirds_style)
  with unit have 1: "(0 :: real) \<le> 6005099743135819 / 9007199254740992"
    "(6005099743135819 / 9007199254740992 :: real) \<le> 1" by simp_all
  from analyze_style_ratios [of sample_env unmarked_doc "[]"]
  obtain e where e: "analyze_style sample_env unmarked_doc [] = Inr e"
    and zero: "[] = ([] :: pystr list) \<longrightarrow> type_token_ratio e = 0"
      "body_text unmarked_doc = [] \<and> word_tokenize sample_env [] = [] \<longrightarrow>
         preprocess sample_env unmarked_doc = [] \<and> vocabulary_richness e = 0"
    by blast
  from e have "e = style_of sample_env unmarked_doc []" by (auto simp: analyze_style_eq)
  with zero have 2: "type_token_ratio (style_of sample_env unmarked_doc []) = 0"
    "vocabulary_richness (style_of sample_env unmarked_doc []) = 0"
    by (simp_all add: unmarked_body sample_tokenizers)
  show ?thesis
    using thirds_style 1 analyze_style_eq [of sample_env unmarked_doc "[]"] 2
    by (intro conjI) assumption+
qed

subsection \<open>A document without a body\<close>

lemma build_bag_of_words_empty: "build_bag_of_words [] = Inr ([], [])"
  by (simp add: build_bag_of_words_def Counter_def most_common_def exn_bind_def)

lemma analyze_sentiment_empty:
  assumes "body_text self = []" "sent_tokenize env [] = []"
  shows "analyze_sentiment env self =
     Inr \<lparr>compound = vader_compound (polarity_scores env []),
          positive = vader_pos (polarity_scores env []),
          negative = vader_neg (polarity_scores env []),
          neutral = vader_neu (polarity_scores env []),
          classification = classify_sentiment (vader_compound (polarity_scores env [])),
          sentence_sentiments = \<lparr>s_mean = 0, s_std = 0, s_min = 0, s_max = 0\<rparr>\<rparr>"
  using assms by (simp add: analyze_sentiment_def exn_bind_def Let_def)

lemma analyze_style_empty:
  assumes "body_text self = []" "word_tokenize env [] = []" "sent_tokenize env [] = []"
  shows "analyze_style env self [] =
     Inr \<lparr>type_token_ratio = 0, unique_words = 0, total_words = 0, unique_words_all = 0,
          total_words_all = 0, avg_word_length = 0, avg_sentence_length = 0,
          total_sentences = 0, vocabulary_richness = 0\<rparr>"
  using assms by (simp add: analyze_style_def exn_bind_def lower_empty py_round_zero Let_def)

lemma extract_topics_few:
  "int (length (sent_tokenize env (body_text self))) < n \<Longrightarrow> extract_topics env self n k = ([], [])"
  by (simp add: extract_topics_def)

text \<open>
  C2. For a document whose body is empty, as it is when a marker is not found, and
  tokenizers that find no token and no sentence in the empty text, the analysis returns
  a record and raises nothing: there are no filtered tokens, no top words and no word
  frequencies, the mean, deviation, minimum and maximum of the sentence scores are 0,
  every ratio and count of the style record is 0, and there are no topics.
\<close>

theorem analyze_empty_body:
  assumes "body_text self = []" "word_tokenize env [] = []" "sent_tokenize env [] = []"
  shows "preprocess env self = [] \<and>
    analyze env self =
      Inr \<lparr>res_id = pg_id self,
           res_metadata = doc_metadata self,
           top_words = [],
           word_frequencies = [],
           sentiment =
             \<lparr>compound = vader_compound (polarity_scores env []),
              positive = vader_pos (polarity_scores env []),
              negative = vader_neg (polarity_scores env []),
              neutral = vader_neu (polarity_scores env []),
              classification = classify_sentiment (vader_compound (polarity_scores env [])),
              sentence_sentiments = \<lparr>s_mean = 0, s_std = 0, s_min = 0, s_max = 0\<rparr>\<rparr>,
           style_metrics =
             \<lparr>type_token_ratio = 0, unique_words = 0, total_words = 0, unique_words_all = 0,
              total_words_all = 0, avg_word_length = 0, avg_sentence_length = 0,
              total_sentences = 0, vocabulary_richness = 0\<rparr>,
           topics = []\<rparr>"
proof -
  have tokens: "preprocess env self = []"
    using assms by (simp add: preprocess_empty)
  have few: "extract_topics env self 3 8 = ([], [])"
    using assms by (simp add: extract_topics_few)
  show ?thesis
    by (simp add: analyze_def tokens build_bag_of_words_empty few exn_bind_def
        analyze_sentiment_empty [OF assms(1, 3)] analyze_style_empty [OF assms])
qed

theorem analyze_empty_body_witness:
  "body_text unmarked_doc = [] \<and> preprocess sample_env unmarked_doc = [] \<and>
   analyze sample_env unmarked_doc =
      Inr \<lparr>res_id = str ''pg7'',
           res_metadata = \<lparr>meta_pg_id = str ''pg7'', title = None, author = None,
                           release_date = None, language = None\<rparr>,
           top_words = [],
           word_frequencies = [],
           sentiment =
             \<lparr>compound = 0, positive = 0, negative = 0, neutral = 0,
              classification = ''neutral'',
              sentence_sentiments = \<lparr>s_mean = 0, s_std = 0, s_min = 0, s_max = 0\<rparr>\<rparr>,
           style_metrics =
             \<lparr>type_token_ratio = 0, unique_words = 0, total_words = 0, unique_words_all = 0,
              total_words_all = 0, avg_word_length = 0, avg_sentence_length = 0,
              total_sentences = 0, vocabulary_richness = 0\<rparr>,
           topics = []\<rparr>"
proof -
  have meta: "doc_metadata unmarked_doc = \<lparr>meta_pg_id = str ''pg7'', title = None, author = None,
                           release_date = None, language = None\<rparr>"
    by (simp add: unmarked_doc_def init_def extract_metadata_def text_defs regex_defs)
  have id: "pg_id unmarked_doc = str ''pg7''"
    by (simp add: unmarked_doc_def init_def)
  have sc: "polarity_scores sample_env [] = \<lparr>vader_neg = 0, vader_neu = 0, vader_pos = 0, vader_compound = 0\<rparr>"
    by (simp add: sample_env_def sample_scores_def)
  show ?thesis
    using analyze_empty_body [OF unmarked_body sample_tokenizers]
    by (simp add: unmarked_body meta id sc classify_sentiment_def)
qed

subsection \<open>Topics\<close>

text \<open>
  C6. \<open>extract_topics\<close> always returns a list, and what it prints. With fewer sentences
  than \<open>n\<close>, so with \<open>n - 1\<close> of them, the list is empty, nothing is printed and the
  result is the same whatever the vectorizer and the model would do: no fit is
  attempted. With \<open>n\<close> sentences or more the result is the outcome of the fit. Every
  exception of the fit, from the vectorizer, from the model or from building the
  records, gives the empty list and one printed warning.
\<close>

theorem extract_topics_never_raises:
  "(int (length (sent_tokenize env (body_text self))) < n \<longrightarrow>
      extract_topics env self n k = ([], []) \<and>
      extract_topics (env\<lparr>fit_transform := f, lda_fit := g\<rparr>) self n k = ([], [])) \<and>
   (int (length (sent_tokenize env (body_text self))) = n - 1 \<longrightarrow>
      extract_topics env self n k = ([], [])) \<and>
   (int (length (sent_tokenize env (body_text self))) \<ge> n \<longrightarrow>
      extract_topics env self n k =
        (case fit_topics env (sent_tokenize env (body_text self)) n k of
           Inr found \<Rightarrow> (found, [])
         | Inl e \<Rightarrow> ([], [Printed_warning (pg_id self) e]))) \<and>
   (int (length (sent_tokenize env (body_text self))) = n \<and>
    fit_transform env (sent_tokenize env (body_text self)) = Inl e \<longrightarrow>
      extract_topics env self n k = ([], [Printed_warning (pg_id self) e])) \<and>
   (int (length (sent_tokenize env (body_text self))) \<ge> n \<and>
    fit_transform env (sent_tokenize env (body_text self)) = Inl e \<longrightarrow>
      extract_topics env self n k = ([], [Printed_warning (pg_id self) e])) \<and>
   (int (length (sent_tokenize env (body_text self))) \<ge> n \<and>
    fit_transform env (sent_tokenize env (body_text self)) = Inr (names, matrix) \<and>
    lda_fit env n matrix = Inl e \<longrightarrow>
      extract_topics env self n k = ([], [Printed_warning (pg_id self) e])) \<and>
   (int (length (sent_tokenize env (body_text self))) \<ge> n \<and>
    fit_topics env (sent_tokenize env (body_text self)) n k = Inl e \<longrightarrow>
      extract_topics env self n k = ([], [Printed_warning (pg_id self) e]))"
  by (simp add: extract_topics_def fit_topics_def exn_bind_def)

theorem extract_topics_never_raises_witness:
  "extract_topics sample_env sample_doc 3 8 = ([], []) \<and>
   extract_topics failing_env sample_doc 2 8 =
     ([], [Printed_warning (str ''pg1'') (External (str ''empty vocabulary''))])"
proof -
  have two: "int (length (sent_tokenize sample_env (body_text sample_doc))) = 3 - 1"
    by (simp add: sample_sentences)
  have same: "sent_tokenize failing_env = sent_tokenize sample_env"
    by (simp add: failing_env_def)
  have fails: "int (length (sent_tokenize failing_env (body_text sample_doc))) = 2 \<and>
      fit_transform failing_env (sent_tokenize failing_env (body_text sample_doc))
        = Inl (External (str ''empty vocabulary''))"
    by (simp add: same sample_sentences) (simp add: failing_env_def)
  have id: "pg_id sample_doc = str ''pg1''"
    by (simp add: sample_doc_def init_def)
  from extract_topics_never_raises [where env = sample_env and self = sample_doc and n = 3 and k = 8] two
  have 1: "extract_topics sample_env sample_doc 3 8 = ([], [])" by blast
  from extract_topics_never_raises [where env = failing_env and self = sample_doc and n = 2
      and k = 8 and e = "External (str ''empty vocabulary'')"] fails
  have "extract_topics failing_env sample_doc 2 8 =
     ([], [Printed_warning (pg_id sample_doc) (External (str ''empty vocabulary''))])" by blast
  with 1 id show ?thesis by simp
qed

lemma top_indices_eq:
  "1 \<le> k \<Longrightarrow>
   top_indices env row k = rev (drop (length (argsort env row) - nat k) (argsort env row))"
  by (simp add: top_indices_def py_slice_from_def Let_def nat_diff_distrib' max_def)

lemma sorts_length: "sorts idx row \<Longrightarrow> length idx = length row"
  by (metis sorts_def distinct_card card_lessThan)

lemma sorted_last_greatest:
  "sorted xs \<Longrightarrow> x \<in> set xs \<Longrightarrow> x \<le> last xs"
  by (induction xs) (auto split: if_splits)

lemma sorts_last_Max:
  assumes "sorts idx row" "row \<noteq> []"
  shows "row ! last idx = Max (set row)"
proof -
  from assms have ne: "idx \<noteq> []" using sorts_length [OF assms(1)] by auto
  have "last idx \<in> set idx" using ne by simp
  then have l: "last idx < length row" using assms(1) by (auto simp: sorts_def)
  have "y \<le> row ! last idx" if "y \<in> set row" for y
  proof -
    from that obtain j where j: "j < length row" "y = row ! j" by (auto simp: in_set_conv_nth)
    then have "j \<in> set idx" using assms(1) by (auto simp: sorts_def)
    then have "row ! j \<in> set (map (\<lambda>i. row ! i) idx)" by auto
    moreover have "sorted (map (\<lambda>i. row ! i) idx)" using assms(1) by (simp add: sorts_def)
    ultimately have "row ! j \<le> last (map (\<lambda>i. row ! i) idx)" by (rule sorted_last_greatest [rotated])
    with ne j show ?thesis by (simp add: last_map)
  qed
  then show ?thesis using l by (intro Max_eqI [symmetric]) auto
qed

lemma top_indices_props:
  assumes s: "sorts (argsort env row) row" and k: "1 \<le> k"
  shows "distinct (top_indices env row k)"
    and "set (top_indices env row k) \<subseteq> {..<length row}"
    and "length (top_indices env row k) = min (nat k) (length row)"
    and "sorted_wrt (\<lambda>a b. row ! b \<le> row ! a) (top_indices env row k)"
    and "\<forall>j < length row. j \<notin> set (top_indices env row k) \<longrightarrow>
           (\<forall>a \<in> set (top_indices env row k). row ! j \<le> row ! a)"
    and "row \<noteq> [] \<longrightarrow> top_indices env row k \<noteq> [] \<and>
           row ! hd (top_indices env row k) = Max (set row)"
proof -
  let ?idx = "argsort env row"
  let ?d = "length ?idx - nat k"
  have top: "top_indices env row k = rev (drop ?d ?idx)" by (rule top_indices_eq [OF k])
  have len: "length ?idx = length row" by (rule sorts_length [OF s])
  have dist: "distinct ?idx" and all: "set ?idx = {..<length row}"
    and srt: "sorted (map (\<lambda>i. row ! i) ?idx)"
    using s by (simp_all add: sorts_def)
  show "distinct (top_indices env row k)" using dist by (simp add: top)
  show "set (top_indices env row k) \<subseteq> {..<length row}"
    using all set_drop_subset [of ?d ?idx] by (simp add: top)
  show "length (top_indices env row k) = min (nat k) (length row)"
    using len by (simp add: top)
  have "sorted_wrt (\<lambda>a b. row ! a \<le> row ! b) ?idx"
    using srt by (simp add: sorted_wrt_map)
  then have whole: "sorted_wrt (\<lambda>a b. row ! a \<le> row ! b) (take ?d ?idx @ drop ?d ?idx)"
    by simp
  then have "sorted_wrt (\<lambda>a b. row ! a \<le> row ! b) (drop ?d ?idx)"
    by (simp only: sorted_wrt_append)
  then show "sorted_wrt (\<lambda>a b. row ! b \<le> row ! a) (top_indices env row k)"
    by (simp add: top sorted_wrt_rev)
  show "\<forall>j < length row. j \<notin> set (top_indices env row k) \<longrightarrow>
           (\<forall>a \<in> set (top_indices env row k). row ! j \<le> row ! a)"
  proof (intro allI impI ballI)
    fix j a assume j: "j < length row" "j \<notin> set (top_indices env row k)"
      and a: "a \<in> set (top_indices env row k)"
    have "set ?idx = set (take ?d ?idx) \<union> set (drop ?d ?idx)"
      by (metis append_take_drop_id set_append)
    with j all have "j \<in> set (take ?d ?idx)" by (auto simp: top)
    moreover from a have "a \<in> set (drop ?d ?idx)" by (simp add: top)
    ultimately show "row ! j \<le> row ! a"
      using whole by (simp only: sorted_wrt_append)
  qed
  show "row \<noteq> [] \<longrightarrow> top_indices env row k \<noteq> [] \<and>
           row ! hd (top_indices env row k) = Max (set row)"
  proof
    assume ne: "row \<noteq> []"
    with len k have d: "?d < length ?idx" by simp
    then have "drop ?d ?idx \<noteq> []" by simp
    moreover have "hd (rev (drop ?d ?idx)) = last ?idx"
      using d by (simp add: hd_rev)
    ultimately show "top_indices env row k \<noteq> [] \<and>
           row ! hd (top_indices env row k) = Max (set row)"
      using sorts_last_Max [OF s ne] by (simp add: top)
  qed
qed

lemma topic_entry_ok:
  assumes s: "sorts (argsort env row) row" and k: "1 \<le> k"
    and names: "length row = length names" "names \<noteq> []"
  shows "topic_entry env names k (i, row) =
     Inr \<lparr>topic_id = int i + 1,
          words = map (\<lambda>j. names ! j) (top_indices env row k),
          weight = row ! hd (top_indices env row k)\<rparr>"
proof -
  let ?top = "top_indices env row k"
  from names have row: "row \<noteq> []" by auto
  have sub: "set ?top \<subseteq> {..<length row}" by (rule top_indices_props(2) [OF s k])
  have ne: "?top \<noteq> []" using top_indices_props(6) [OF s k] row by simp
  have "traverse (py_index names) ?top = Inr (map (\<lambda>j. names ! j) ?top)"
    using sub names by (intro traverse_total) (auto simp: py_index_def)
  moreover have "py_index ?top 0 = Inr (hd ?top)"
    using ne by (simp add: py_index_def hd_conv_nth)
  moreover have "hd ?top \<in> set ?top" using ne by simp
  then have "py_index row (hd ?top) = Inr (row ! hd ?top)"
    using sub by (auto simp: py_index_def)
  ultimately show ?thesis
    by (simp add: topic_entry_def Let_def exn_bind_def)
qed

lemma fit_topics_ok:
  assumes fit: "fit_transform env sentences = Inr (names, matrix)"
    and lda: "lda_fit env n matrix = Inr components"
    and rows: "\<forall>row \<in> set components. length row = length names \<and> sorts (argsort env row) row"
    and names: "names \<noteq> []" and k: "1 \<le> k"
  shows "fit_topics env sentences n k = Inr (map (topic_of env names k) (enumerate 0 components))"
proof -
  have "traverse (topic_entry env names k) (enumerate 0 components)
        = Inr (map (topic_of env names k) (enumerate 0 components))"
  proof (rule traverse_total)
    fix p assume "p \<in> set (enumerate 0 components)"
    then have "fst p < length components" "snd p = components ! fst p"
      by (auto simp: in_set_enumerate_eq)
    then have "snd p \<in> set components" by simp
    with rows have "length (snd p) = length names" "sorts (argsort env (snd p)) (snd p)" by auto
    from topic_entry_ok [OF this(2) k this(1) names, of "fst p"]
    show "topic_entry env names k p = Inr (topic_of env names k p)"
      by (simp add: topic_of_def split: prod.splits)
  qed
  with fit lda show ?thesis by (simp add: fit_topics_def exn_bind_def)
qed

text \<open>
  The structure below is that of a request for at least one word. With \<open>n_words = 0\<close>
  the slice \<open>[-0:]\<close> is the whole array: on a document of two sentences, with a fit
  that succeeds on a vocabulary of three terms, the record lists all three terms.
\<close>

lemma extract_topics_zero_words:
  "extract_topics sample_env sample_doc 1 0 =
    ([\<lparr>topic_id = 1, words = [str ''dog'', str ''sun'', str ''cat''], weight = 5 / 2\<rparr>], []) \<and>
   length (sent_tokenize sample_env (body_text sample_doc)) = 2 \<and>
   fit_transform sample_env (sent_tokenize sample_env (body_text sample_doc)) =
     Inr (sample_vocabulary, [[1, 0, 2], [1, 0, 2]]) \<and>
   lda_fit sample_env 1 [[1, 0, 2], [1, 0, 2]] = Inr [[1 / 2, 5 / 2, 3 / 2]] \<and>
   length (words (hd (fst (extract_topics sample_env sample_doc 1 0)))) \<noteq>
     min (nat 0) (length sample_vocabulary)"
  by (simp add: sample_topics_all sample_sentences sample_fit sample_lda sample_components
      sample_vocabulary_def)

text \<open>
  C10. Each record lists words and has the weight of its first listed word, so at least
  one word is asked for: \<open>n_words \<ge> 1\<close>. When the body has at least \<open>n_topics\<close> sentences
  and the fit succeeds, with \<open>n_topics\<close> rows as long as the vocabulary, which is not
  empty, and \<open>argsort\<close> sorts each row, \<open>extract_topics\<close> returns \<open>n_topics\<close> records
  and prints nothing; the record at index \<open>i\<close> has the id \<open>i + 1\<close>; its words are the
  terms of \<open>min(n_words, vocabulary size)\<close> distinct indices, in descending order of
  their weights in row \<open>i\<close>, no index left out weighing more than one of them; its
  weight is that of the first word, the maximum of the row.
\<close>

theorem extract_topics_records:
  assumes enough: "int (length (sent_tokenize env (body_text self))) \<ge> n_topics"
    and fit: "fit_transform env (sent_tokenize env (body_text self)) = Inr (names, matrix)"
    and lda: "lda_fit env n_topics matrix = Inr components"
    and shape: "length components = nat n_topics"
    and rows: "\<forall>row \<in> set components. length row = length names \<and> sorts (argsort env row) row"
    and names: "names \<noteq> []" and k: "1 \<le> n_words"
  shows "\<exists>found. extract_topics env self n_topics n_words = (found, []) \<and>
     length found = nat n_topics \<and>
     (\<forall>i < length found.
        topic_id (found ! i) = int i + 1 \<and>
        (\<exists>idx. words (found ! i) = map (\<lambda>j. names ! j) idx \<and>
           distinct idx \<and> set idx \<subseteq> {..<length names} \<and>
           length idx = min (nat n_words) (length names) \<and>
           sorted_wrt (\<lambda>a b. components ! i ! b \<le> components ! i ! a) idx \<and>
           (\<forall>j < length names. j \<notin> set idx \<longrightarrow>
              (\<forall>a \<in> set idx. components ! i ! j \<le> components ! i ! a)) \<and>
           weight (found ! i) = components ! i ! hd idx \<and>
           weight (found ! i) = Max (set (components ! i))))"
proof -
  let ?found = "map (topic_of env names n_words) (enumerate 0 components)"
  have run: "extract_topics env self n_topics n_words = (?found, [])"
    using enough fit_topics_ok [OF fit lda rows names k] by (simp add: extract_topics_def)
  have len: "length ?found = nat n_topics" using shape by simp
  have each: "\<forall>i < length ?found.
        topic_id (?found ! i) = int i + 1 \<and>
        (\<exists>idx. words (?found ! i) = map (\<lambda>j. names ! j) idx \<and>
           distinct idx \<and> set idx \<subseteq> {..<length names} \<and>
           length idx = min (nat n_words) (length names) \<and>
           sorted_wrt (\<lambda>a b. components ! i ! b \<le> components ! i ! a) idx \<and>
           (\<forall>j < length names. j \<notin> set idx \<longrightarrow>
              (\<forall>a \<in> set idx. components ! i ! j \<le> components ! i ! a)) \<and>
           weight (?found ! i) = components ! i ! hd idx \<and>
           weight (?found ! i) = Max (set (components ! i)))"
  proof (intro allI impI)
    fix i assume "i < length ?found"
    then have i: "i < length components" by simp
    let ?row = "components ! i"
    let ?top = "top_indices env ?row n_words"
    from i rows have r: "length ?row = length names" "sorts (argsort env ?row) ?row" by auto
    with names have ne: "?row \<noteq> []" by auto
    have entry: "?found ! i = \<lparr>topic_id = int i + 1, words = map (\<lambda>j. names ! j) ?top,
         weight = ?row ! hd ?top\<rparr>"
      using i by (simp add: nth_enumerate_eq topic_of_def)
    note p = top_indices_props [OF r(2) k]
    have "words (?found ! i) = map (\<lambda>j. names ! j) ?top \<and>
           distinct ?top \<and> set ?top \<subseteq> {..<length names} \<and>
           length ?top = min (nat n_words) (length names) \<and>
           sorted_wrt (\<lambda>a b. ?row ! b \<le> ?row ! a) ?top \<and>
           (\<forall>j < length names. j \<notin> set ?top \<longrightarrow> (\<forall>a \<in> set ?top. ?row ! j \<le> ?row ! a)) \<and>
           weight (?found ! i) = ?row ! hd ?top \<and>
           weight (?found ! i) = Max (set ?row)"
      using p ne by (simp add: entry r(1))
    then show "topic_id (?found ! i) = int i + 1 \<and>
        (\<exists>idx. words (?found ! i) = map (\<lambda>j. names ! j) idx \<and>
           distinct idx \<and> set idx \<subseteq> {..<length names} \<and>
           length idx = min (nat n_words) (length names) \<and>
           sorted_wrt (\<lambda>a b. ?row ! b \<le> ?row ! a) idx \<and>
           (\<forall>j < length names. j \<notin> set idx \<longrightarrow> (\<forall>a \<in> set idx. ?row ! j \<le> ?row ! a)) \<and>
           weight (?found ! i) = ?row ! hd idx \<and>
           weight (?found ! i) = Max (set ?row))"
      by (intro conjI exI [of _ ?top]) (simp_all add: entry)
  qed
  show ?thesis
    by (rule exI [of _ ?found]) (intro conjI; fact)
qed

theorem extract_topics_records_witness:
  "extract_topics sample_env sample_doc 2 2 =
    ([\<lparr>topic_id = 1, words = [str ''dog'', str ''sun''], weight = 5 / 2\<rparr>,
      \<lparr>topic_id = 2, words = [str ''dog'', str ''sun''], weight = 5 / 2\<rparr>], []) \<and>
   length (fst (extract_topics sample_env sample_doc 2 2)) = 2 \<and>
   snd (extract_topics sample_env sample_doc 2 2) = []"
proof -
  let ?rows = "[[1 / 2, 5 / 2, 3 / 2], [3 / 2, 5 / 2, 3 / 2 :: real]]"
  have 1: "2 \<le> int (length (sent_tokenize sample_env (body_text sample_doc)))"
    by (simp add: sample_sentences)
  have 2: "fit_transform sample_env (sent_tokenize sample_env (body_text sample_doc)) =
     Inr (sample_vocabulary, [[1, 0, 2], [1, 0, 2]])"
    by (simp add: sample_sentences sample_fit)
  have 3: "lda_fit sample_env 2 [[1, 0, 2], [1, 0, 2]] = Inr ?rows"
    by (simp add: sample_lda sample_components)
  have 4: "length ?rows = nat 2" by simp
  have 5: "\<forall>row \<in> set ?rows. length row = length sample_vocabulary \<and>
      sorts (argsort sample_env row) row"
    by (simp add: sample_vocabulary_def sample_sorts)
  have 6: "sample_vocabulary \<noteq> []" by (simp add: sample_vocabulary_def)
  have 7: "(1 :: int) \<le> 2" by simp
  from extract_topics_records [OF 1 2 3 4 5 6 7]
  obtain found where "extract_topics sample_env sample_doc 2 2 = (found, [])"
    and "length found = nat 2" by blast
  then show ?thesis by (simp add: sample_topics_two)
qed


end
